theory Spec2Isabelle
  imports Complex_Main
begin

section \<open>Vector algebra of tetgen\_stb.h\<close>

text \<open>
  The header computes on \<^verbatim>\<open>float\<close> and \<^verbatim>\<open>double\<close>. Scalars are
  modelled by \<^typ>\<open>real\<close>: rounding, infinities and NaN are left out. Indices of type
  \<^verbatim>\<open>int32_t\<close> are modelled by \<^typ>\<open>int\<close>; the code only copies and compares
  them, so no arithmetic can overflow. The loop counter \<^verbatim>\<open>depth\<close> stays within
  0..80.
\<close>

datatype float4 = make_float4 (f_x: real) (f_y: real) (f_z: real) (f_w: real)

text \<open>\<^verbatim>\<open>operator-(const float4 &a, const float4 &b)\<close>: the fourth component is set to 0.\<close>

definition sub4 :: "float4 \<Rightarrow> float4 \<Rightarrow> float4" where
  "sub4 a b = make_float4 (f_x a - f_x b) (f_y a - f_y b) (f_z a - f_z b) 0"

definition Dot :: "float4 \<Rightarrow> float4 \<Rightarrow> real" where
  "Dot a b = f_x a * f_x b + f_y a * f_y b + f_z a * f_z b"

definition Cross :: "float4 \<Rightarrow> float4 \<Rightarrow> float4" where
  "Cross a b = make_float4 (f_y a * f_z b - f_z a * f_y b)
                           (f_z a * f_x b - f_x a * f_z b)
                           (f_x a * f_y b - f_y a * f_x b) 0"

definition ScTP :: "float4 \<Rightarrow> float4 \<Rightarrow> float4 \<Rightarrow> real" where
  "ScTP a b c = Dot a (Cross b c)"

definition signf :: "real \<Rightarrow> int" where
  "signf f = (if f > 0 then 1 else if f < 0 then - 1 else 0)"

definition SameSide :: "float4 \<Rightarrow> float4 \<Rightarrow> float4 \<Rightarrow> float4 \<Rightarrow> float4 \<Rightarrow> bool" where
  "SameSide v1 v2 v3 v4 p =
     (let normal = Cross (sub4 v2 v1) (sub4 v3 v1);
          dotV4 = Dot normal (sub4 v4 v1);
          dotP = Dot normal (sub4 p v1)
      in signf dotV4 = signf dotP)"

definition IsPointInTetrahedron :: "float4 \<Rightarrow> float4 \<Rightarrow> float4 \<Rightarrow> float4 \<Rightarrow> float4 \<Rightarrow> bool" where
  "IsPointInTetrahedron v1 v2 v3 v4 p =
     (SameSide v1 v2 v3 v4 p \<and>
      SameSide v2 v3 v4 v1 p \<and>
      SameSide v3 v4 v1 v2 p \<and>
      SameSide v4 v1 v2 v3 p)"

section \<open>The exit-face resolver\<close>

text \<open>
  The four sign patterns of \<^verbatim>\<open>GetExitTet\<close>, each the conjunction of the outer and the
  inner condition of one of its four \<^verbatim>\<open>if\<close> blocks. The arguments are the signs of the
  scalar triple products the block reads, in the order the block reads them.
\<close>

definition exit_ABC :: "int \<Rightarrow> int \<Rightarrow> int \<Rightarrow> bool" where
  "exit_ABC sQAB sQAC sQBC =
     ((sQAB \<noteq> 0 \<and> sQAC \<noteq> 0 \<and> sQBC \<noteq> 0) \<and> (sQAB < 0 \<and> sQAC > 0 \<and> sQBC < 0))"

definition exit_BAD :: "int \<Rightarrow> int \<Rightarrow> int \<Rightarrow> bool" where
  "exit_BAD sQAB sQAD sQBD =
     ((sQAB \<noteq> 0 \<and> sQAD \<noteq> 0 \<and> sQBD \<noteq> 0) \<and> (sQAB > 0 \<and> sQAD < 0 \<and> sQBD > 0))"

definition exit_CDA :: "int \<Rightarrow> int \<Rightarrow> int \<Rightarrow> bool" where
  "exit_CDA sQAD sQAC sQCD =
     ((sQAD \<noteq> 0 \<and> sQAC \<noteq> 0 \<and> sQCD \<noteq> 0) \<and> (sQAD > 0 \<and> sQAC < 0 \<and> sQCD < 0))"

definition exit_DCB :: "int \<Rightarrow> int \<Rightarrow> int \<Rightarrow> bool" where
  "exit_DCB sQBC sQBD sQCD =
     ((sQBC \<noteq> 0 \<and> sQBD \<noteq> 0 \<and> sQCD \<noteq> 0) \<and> (sQBC > 0 \<and> sQBD < 0 \<and> sQCD > 0))"

text \<open>
  The chained conditionals of \<^verbatim>\<open>GetExitTet\<close> (lines 455 to 474), as a function of the
  six signs: the outputs start at \<open>(0, 0)\<close> and each matching block overwrites them, the
  blocks running in the order ABC, BAD, CDA, DCB. The C arrays \<^verbatim>\<open>findex[4]\<close> and
  \<^verbatim>\<open>adjtet[4]\<close> are 4-tuples. The result is the pair \<open>(face, tet)\<close>.
\<close>

definition GetExitTet_select ::
  "int \<Rightarrow> int \<Rightarrow> int \<Rightarrow> int \<Rightarrow> int \<Rightarrow> int \<Rightarrow>
   int \<times> int \<times> int \<times> int \<Rightarrow> int \<times> int \<times> int \<times> int \<Rightarrow> int \<times> int" where
  "GetExitTet_select sQAB sQBC sQAC sQAD sQBD sQCD findex adjtet =
     (case findex of (findex0, findex1, findex2, findex3) \<Rightarrow>
      case adjtet of (adjtet0, adjtet1, adjtet2, adjtet3) \<Rightarrow>
      let r0 = (0, 0);
          r1 = (if sQAB \<noteq> 0 \<and> sQAC \<noteq> 0 \<and> sQBC \<noteq> 0
                then (if sQAB < 0 \<and> sQAC > 0 \<and> sQBC < 0 then (findex3, adjtet3) else r0)
                else r0);
          r2 = (if sQAB \<noteq> 0 \<and> sQAD \<noteq> 0 \<and> sQBD \<noteq> 0
                then (if sQAB > 0 \<and> sQAD < 0 \<and> sQBD > 0 then (findex2, adjtet2) else r1)
                else r1);
          r3 = (if sQAD \<noteq> 0 \<and> sQAC \<noteq> 0 \<and> sQCD \<noteq> 0
                then (if sQAD > 0 \<and> sQAC < 0 \<and> sQCD < 0 then (findex1, adjtet1) else r2)
                else r2);
          r4 = (if sQBC \<noteq> 0 \<and> sQBD \<noteq> 0 \<and> sQCD \<noteq> 0
                then (if sQBC > 0 \<and> sQBD < 0 \<and> sQCD > 0 then (findex0, adjtet0) else r3)
                else r3)
      in r4)"

text \<open>
  The first half of \<^verbatim>\<open>GetExitTet\<close> (lines 429 to 453): the ray is translated to the
  origin and the six scalar triple products and their signs are computed. The result is
  \<open>(sQAB, sQBC, sQAC, sQAD, sQBD, sQCD)\<close>.
\<close>

definition GetExitTet_signs ::
  "float4 \<Rightarrow> float4 \<Rightarrow> float4 \<times> float4 \<times> float4 \<times> float4 \<Rightarrow>
   int \<times> int \<times> int \<times> int \<times> int \<times> int" where
  "GetExitTet_signs ray_o ray_d nodes =
     (case nodes of (nodes0, nodes1, nodes2, nodes3) \<Rightarrow>
      let q = ray_d;
          v0 = make_float4 (f_x nodes0) (f_y nodes0) (f_z nodes0) 0;
          v1 = make_float4 (f_x nodes1) (f_y nodes1) (f_z nodes1) 0;
          v2 = make_float4 (f_x nodes2) (f_y nodes2) (f_z nodes2) 0;
          v3 = make_float4 (f_x nodes3) (f_y nodes3) (f_z nodes3) 0;
          p0 = sub4 v0 ray_o;
          p1 = sub4 v1 ray_o;
          p2 = sub4 v2 ray_o;
          p3 = sub4 v3 ray_o;
          QAB = ScTP q p0 p1;
          QBC = ScTP q p1 p2;
          QAC = ScTP q p0 p2;
          QAD = ScTP q p0 p3;
          QBD = ScTP q p1 p3;
          QCD = ScTP q p2 p3
      in (signf QAB, signf QBC, signf QAC, signf QAD, signf QBD, signf QCD))"

text \<open>
  \<^verbatim>\<open>GetExitTet\<close>: the signs, then the chained conditionals. The parameter
  \<^verbatim>\<open>lface\<close> is never read by the source. The result is the pair \<open>(face, tet)\<close>.
\<close>

definition GetExitTet ::
  "float4 \<Rightarrow> float4 \<Rightarrow> float4 \<times> float4 \<times> float4 \<times> float4 \<Rightarrow>
   int \<times> int \<times> int \<times> int \<Rightarrow> int \<times> int \<times> int \<times> int \<Rightarrow> int \<Rightarrow> int \<times> int" where
  "GetExitTet ray_o ray_d nodes findex adjtet lface =
     (case GetExitTet_signs ray_o ray_d nodes of (sQAB, sQBC, sQAC, sQAD, sQBD, sQCD) \<Rightarrow>
        GetExitTet_select sQAB sQBC sQAC sQAD sQBD sQCD findex adjtet)"

text \<open>The number of sign patterns that hold, that is, of assignments to the outputs.\<close>

definition exit_matches :: "int \<Rightarrow> int \<Rightarrow> int \<Rightarrow> int \<Rightarrow> int \<Rightarrow> int \<Rightarrow> nat" where
  "exit_matches sQAB sQBC sQAC sQAD sQBD sQCD =
     length (filter id [exit_ABC sQAB sQAC sQBC, exit_BAD sQAB sQAD sQBD,
                        exit_CDA sQAD sQAC sQCD, exit_DCB sQBC sQBD sQCD])"

text \<open>None of the four sign patterns holds for the ray in the tetrahedron.\<close>

definition no_exit_match :: "float4 \<Rightarrow> float4 \<Rightarrow> float4 \<times> float4 \<times> float4 \<times> float4 \<Rightarrow> bool" where
  "no_exit_match ray_o ray_d nodes =
     (case GetExitTet_signs ray_o ray_d nodes of (sQAB, sQBC, sQAC, sQAD, sQBD, sQCD) \<Rightarrow>
        exit_matches sQAB sQBC sQAC sQAD sQBD sQCD = 0)"

section \<open>The mesh\<close>

text \<open>
  Modelled from the spec: the declaration of \<^verbatim>\<open>struct mesh2\<close> is missing from the
  header. It is the mesh of section 3 of the specification, flat collections addressed by
  index, with the field names by which the functions below read them: two counts and, per
  attribute, one array. An array is a list whose length is the number of elements
  allocated.
\<close>

record mesh2 =
  tetnum :: nat
  nodenum :: nat
  n_x :: "real list"
  n_y :: "real list"
  n_z :: "real list"
  t_nindex1 :: "int list"
  t_nindex2 :: "int list"
  t_nindex3 :: "int list"
  t_nindex4 :: "int list"
  t_findex1 :: "int list"
  t_findex2 :: "int list"
  t_findex3 :: "int list"
  t_findex4 :: "int list"
  t_adjtet1 :: "int list"
  t_adjtet2 :: "int list"
  t_adjtet3 :: "int list"
  t_adjtet4 :: "int list"
  face_is_constrained :: "bool list"
  face_is_wall :: "bool list"

record rayhit =
  pos :: float4
  tet :: int
  face :: int
  depth :: int
  wall :: bool
  constrained :: bool
  dark :: bool

record BBox =
  min_c :: float4
  max_c :: float4

text \<open>
  What C++ leaves undefined is an error value of the model: \<open>OutOfRange\<close> for an array
  element read outside the array, \<open>NoReturnValue\<close> for control reaching the end of a
  function that has to return a value, \<open>Uninitialised\<close> for the read of a local variable
  that was never assigned.
\<close>

datatype error = OutOfRange | NoReturnValue | Uninitialised

definition bnd :: "error + 'a \<Rightarrow> ('a \<Rightarrow> error + 'b) \<Rightarrow> error + 'b" where
  "bnd r f = (case r of Inl e \<Rightarrow> Inl e | Inr v \<Rightarrow> f v)"

text \<open>The array read \<^verbatim>\<open>a[i]\<close>; the source checks no index.\<close>

definition idx :: "'a list \<Rightarrow> int \<Rightarrow> error + 'a" where
  "idx a i = (if 0 \<le> i \<and> i < int (length a) then Inr (a ! nat i) else Inl OutOfRange)"

text \<open>\<^verbatim>\<open>make_float4(mesh->n_x[k], mesh->n_y[k], mesh->n_z[k], 0)\<close>\<close>

definition node_pos :: "mesh2 \<Rightarrow> int \<Rightarrow> error + float4" where
  "node_pos mesh k =
     bnd (idx (n_x mesh) k) (\<lambda>px.
     bnd (idx (n_y mesh) k) (\<lambda>py.
     bnd (idx (n_z mesh) k) (\<lambda>pz.
     Inr (make_float4 px py pz 0))))"

text \<open>The local array \<^verbatim>\<open>float4 nodes[4]\<close> of a tetrahedron (lines 494 to 498, 385 to 388).\<close>

definition tet_nodes :: "mesh2 \<Rightarrow> int \<Rightarrow> error + float4 \<times> float4 \<times> float4 \<times> float4" where
  "tet_nodes mesh t =
     bnd (bnd (idx (t_nindex1 mesh) t) (node_pos mesh)) (\<lambda>nodes0.
     bnd (bnd (idx (t_nindex2 mesh) t) (node_pos mesh)) (\<lambda>nodes1.
     bnd (bnd (idx (t_nindex3 mesh) t) (node_pos mesh)) (\<lambda>nodes2.
     bnd (bnd (idx (t_nindex4 mesh) t) (node_pos mesh)) (\<lambda>nodes3.
     Inr (nodes0, nodes1, nodes2, nodes3)))))"

text \<open>The local array \<^verbatim>\<open>int32_t findex[4]\<close> (line 492).\<close>

definition tet_findex :: "mesh2 \<Rightarrow> int \<Rightarrow> error + int \<times> int \<times> int \<times> int" where
  "tet_findex mesh t =
     bnd (idx (t_findex1 mesh) t) (\<lambda>findex0.
     bnd (idx (t_findex2 mesh) t) (\<lambda>findex1.
     bnd (idx (t_findex3 mesh) t) (\<lambda>findex2.
     bnd (idx (t_findex4 mesh) t) (\<lambda>findex3.
     Inr (findex0, findex1, findex2, findex3)))))"

text \<open>The local array \<^verbatim>\<open>int32_t adjtets[4]\<close> (line 493).\<close>

definition tet_adjtets :: "mesh2 \<Rightarrow> int \<Rightarrow> error + int \<times> int \<times> int \<times> int" where
  "tet_adjtets mesh t =
     bnd (idx (t_adjtet1 mesh) t) (\<lambda>adjtets0.
     bnd (idx (t_adjtet2 mesh) t) (\<lambda>adjtets1.
     bnd (idx (t_adjtet3 mesh) t) (\<lambda>adjtets2.
     bnd (idx (t_adjtet4 mesh) t) (\<lambda>adjtets3.
     Inr (adjtets0, adjtets1, adjtets2, adjtets3)))))"

section \<open>The point locator\<close>

text \<open>
  \<^verbatim>\<open>GetTetrahedraFromPoint\<close>: the \<^verbatim>\<open>for\<close> loop from index \<open>i\<close> on. After the loop the
  source has no \<^verbatim>\<open>return\<close> statement.
\<close>

function GetTetrahedraFromPoint_loop :: "mesh2 \<Rightarrow> float4 \<Rightarrow> nat \<Rightarrow> error + int" where
  "GetTetrahedraFromPoint_loop mesh p i =
     (if i < tetnum mesh then
        (case tet_nodes mesh (int i) of
           Inl e \<Rightarrow> Inl e
         | Inr (v1, v2, v3, v4) \<Rightarrow>
             if IsPointInTetrahedron v1 v2 v3 v4 p = True then Inr (int i)
             else GetTetrahedraFromPoint_loop mesh p (Suc i))
      else Inl NoReturnValue)"
  by pat_completeness auto
termination
  by (relation "measure (\<lambda>(mesh, p, i). tetnum mesh - i)") auto

definition GetTetrahedraFromPoint :: "mesh2 \<Rightarrow> float4 \<Rightarrow> error + int" where
  "GetTetrahedraFromPoint mesh p = GetTetrahedraFromPoint_loop mesh p 0"

section \<open>The bounding box\<close>

text \<open>\<^verbatim>\<open>#define inf 1e20\<close>\<close>

definition inf_f :: real where
  "inf_f = 10 ^ 20"

text \<open>The assignments \<^verbatim>\<open>b.x = v\<close>, \<^verbatim>\<open>b.y = v\<close>, \<^verbatim>\<open>b.z = v\<close> to one component.\<close>

definition set_x :: "float4 \<Rightarrow> real \<Rightarrow> float4" where
  "set_x a v = make_float4 v (f_y a) (f_z a) (f_w a)"

definition set_y :: "float4 \<Rightarrow> real \<Rightarrow> float4" where
  "set_y a v = make_float4 (f_x a) v (f_z a) (f_w a)"

definition set_z :: "float4 \<Rightarrow> real \<Rightarrow> float4" where
  "set_z a v = make_float4 (f_x a) (f_y a) v (f_w a)"

text \<open>The body of the loop of \<^verbatim>\<open>init_BBox\<close> (lines 400 to 405) for one node.\<close>

definition init_BBox_body :: "real \<Rightarrow> real \<Rightarrow> real \<Rightarrow> BBox \<Rightarrow> BBox" where
  "init_BBox_body px py pz bb =
     (let b1 = (if f_x (min_c bb) < px then bb\<lparr>min_c := set_x (min_c bb) px\<rparr> else bb);
          b2 = (if f_x (max_c b1) > px then b1\<lparr>max_c := set_x (max_c b1) px\<rparr> else b1);
          b3 = (if f_y (min_c b2) < py then b2\<lparr>min_c := set_y (min_c b2) py\<rparr> else b2);
          b4 = (if f_y (max_c b3) > py then b3\<lparr>max_c := set_y (max_c b3) py\<rparr> else b3);
          b5 = (if f_z (min_c b4) < pz then b4\<lparr>min_c := set_z (min_c b4) pz\<rparr> else b4);
          b6 = (if f_z (max_c b5) > pz then b5\<lparr>max_c := set_z (max_c b5) pz\<rparr> else b5)
      in b6)"

function init_BBox_loop :: "mesh2 \<Rightarrow> nat \<Rightarrow> BBox \<Rightarrow> error + BBox" where
  "init_BBox_loop mesh i boundingbox =
     (if i < nodenum mesh then
        (case node_pos mesh (int i) of
           Inl e \<Rightarrow> Inl e
         | Inr n \<Rightarrow>
             init_BBox_loop mesh (Suc i) (init_BBox_body (f_x n) (f_y n) (f_z n) boundingbox))
      else Inr boundingbox)"
  by pat_completeness auto
termination
  by (relation "measure (\<lambda>(mesh, i, boundingbox). nodenum mesh - i)") auto

definition init_BBox :: "mesh2 \<Rightarrow> error + BBox" where
  "init_BBox mesh =
     init_BBox_loop mesh 0
       \<lparr>min_c = make_float4 (- inf_f) (- inf_f) (- inf_f) 0,
        max_c = make_float4 inf_f inf_f inf_f 0\<rparr>"

section \<open>The traversal\<close>

text \<open>
  One execution of the guarded body of the loop of \<^verbatim>\<open>traverse_ray\<close>, lines 492 to 504.
  It is entered with \<^verbatim>\<open>hitfound == false\<close>. The result is
  \<open>(nexttet, nextface, hitfound, d)\<close>.
\<close>

definition traverse_ray_body ::
  "mesh2 \<Rightarrow> float4 \<Rightarrow> float4 \<Rightarrow> int \<Rightarrow> int \<Rightarrow> rayhit \<Rightarrow> error + int \<times> int \<times> bool \<times> rayhit" where
  "traverse_ray_body mesh rayo rayd current_tet lastface d =
     bnd (tet_findex mesh current_tet) (\<lambda>findex.
     bnd (tet_adjtets mesh current_tet) (\<lambda>adjtets.
     bnd (tet_nodes mesh current_tet) (\<lambda>nodes.
     case GetExitTet rayo rayd nodes findex adjtets lastface of (nextface, nexttet) \<Rightarrow>
     bnd (idx (face_is_constrained mesh) nextface) (\<lambda>fc.
     bnd (idx (face_is_wall mesh) nextface) (\<lambda>fw.
     let (d1, h1) = (if fc = True
                     then (d\<lparr>constrained := True, face := nextface, tet := current_tet\<rparr>, True)
                     else (d, False));
         (d2, h2) = (if fw = True
                     then (d1\<lparr>wall := True, face := nextface, tet := current_tet\<rparr>, True)
                     else (d1, h1));
         (d3, h3) = (if nexttet = - 1 \<or> nextface = - 1
                     then (d2\<lparr>wall := True, face := nextface, tet := current_tet\<rparr>, True)
                     else (d2, h2))
     in Inr (nexttet, nextface, h3, d3))))))"

text \<open>
  The \<^verbatim>\<open>for\<close> loop of \<^verbatim>\<open>traverse_ray\<close> from the test \<^verbatim>\<open>d.depth < 80\<close> on. The loop
  has no \<^verbatim>\<open>break\<close>: when \<^verbatim>\<open>hitfound\<close> is set, an iteration only increments
  \<^verbatim>\<open>d.depth\<close>. The local \<^verbatim>\<open>nextface\<close> is declared without a value, hence an option.
  The result is \<open>(current_tet, nextface, hitfound, d)\<close>.
\<close>

function traverse_ray_loop ::
  "mesh2 \<Rightarrow> float4 \<Rightarrow> float4 \<Rightarrow> int \<Rightarrow> int option \<Rightarrow> int \<Rightarrow> bool \<Rightarrow> rayhit \<Rightarrow>
   error + int \<times> int option \<times> bool \<times> rayhit" where
  "traverse_ray_loop mesh rayo rayd current_tet nextface lastface hitfound d =
     (if depth d < 80 then
        (if \<not> hitfound then
           (case traverse_ray_body mesh rayo rayd current_tet lastface d of
              Inl e \<Rightarrow> Inl e
            | Inr (nexttet', nextface', hitfound', d') \<Rightarrow>
                traverse_ray_loop mesh rayo rayd nexttet' (Some nextface') nextface' hitfound'
                  (d'\<lparr>depth := depth d' + 1\<rparr>))
         else traverse_ray_loop mesh rayo rayd current_tet nextface lastface hitfound
                (d\<lparr>depth := depth d + 1\<rparr>))
      else Inr (current_tet, nextface, hitfound, d))"
  by pat_completeness auto
termination
  apply (relation "measure (\<lambda>(mesh, rayo, rayd, current_tet, nextface, lastface, hitfound, d).
        nat (80 - depth d))")
    apply simp
   apply (auto simp: traverse_ray_body_def bnd_def split: sum.splits prod.splits if_splits)
  done

text \<open>
  \<^verbatim>\<open>traverse_ray\<close>. The caller's \<^verbatim>\<open>rayhit &d\<close> is an argument and the result; the
  source assigns \<^verbatim>\<open>d.depth\<close> and sets flags in it, and resets none.
\<close>

definition traverse_ray :: "mesh2 \<Rightarrow> float4 \<Rightarrow> float4 \<Rightarrow> int \<Rightarrow> rayhit \<Rightarrow> error + rayhit" where
  "traverse_ray mesh rayo rayd start d =
     (case traverse_ray_loop mesh rayo rayd start None 0 False (d\<lparr>depth := 0\<rparr>) of
        Inl e \<Rightarrow> Inl e
      | Inr (current_tet, nextface, hitfound, d') \<Rightarrow>
          if \<not> hitfound then
            (case nextface of
               None \<Rightarrow> Inl Uninitialised
             | Some nextface' \<Rightarrow> Inr (d'\<lparr>dark := True, face := nextface', tet := current_tet\<rparr>))
          else Inr d')"

text \<open>
  The guarded body of the loop of \<^verbatim>\<open>traverse_until_point\<close>, lines 534 to 548: the body
  of \<^verbatim>\<open>traverse_ray\<close> with the test of the target point after the call of
  \<^verbatim>\<open>GetExitTet\<close>. The parameter \<^verbatim>\<open>end\<close> of the source is \<open>endp\<close> here.
\<close>

definition traverse_until_point_body ::
  "mesh2 \<Rightarrow> float4 \<Rightarrow> float4 \<Rightarrow> int \<Rightarrow> int \<Rightarrow> float4 \<Rightarrow> rayhit \<Rightarrow>
   error + int \<times> int \<times> bool \<times> rayhit" where
  "traverse_until_point_body mesh rayo rayd current_tet lastface endp d =
     bnd (tet_findex mesh current_tet) (\<lambda>findex.
     bnd (tet_adjtets mesh current_tet) (\<lambda>adjtets.
     bnd (tet_nodes mesh current_tet) (\<lambda>nodes.
     case GetExitTet rayo rayd nodes findex adjtets lastface of (nextface, nexttet) \<Rightarrow>
     case nodes of (nodes0, nodes1, nodes2, nodes3) \<Rightarrow>
     let (d0, h0) = (if IsPointInTetrahedron nodes0 nodes1 nodes2 nodes3 endp
                     then (d\<lparr>face := nextface, tet := current_tet\<rparr>, True)
                     else (d, False))
     in
     bnd (idx (face_is_constrained mesh) nextface) (\<lambda>fc.
     bnd (idx (face_is_wall mesh) nextface) (\<lambda>fw.
     let (d1, h1) = (if fc = True
                     then (d0\<lparr>constrained := True, face := nextface, tet := current_tet\<rparr>, True)
                     else (d0, h0));
         (d2, h2) = (if fw = True
                     then (d1\<lparr>wall := True, face := nextface, tet := current_tet\<rparr>, True)
                     else (d1, h1));
         (d3, h3) = (if nexttet = - 1 \<or> nextface = - 1
                     then (d2\<lparr>wall := True, face := nextface, tet := current_tet\<rparr>, True)
                     else (d2, h2))
     in Inr (nexttet, nextface, h3, d3))))))"

function traverse_until_point_loop ::
  "mesh2 \<Rightarrow> float4 \<Rightarrow> float4 \<Rightarrow> float4 \<Rightarrow> int \<Rightarrow> int option \<Rightarrow> int \<Rightarrow> bool \<Rightarrow> rayhit \<Rightarrow>
   error + int \<times> int option \<times> bool \<times> rayhit" where
  "traverse_until_point_loop mesh rayo rayd endp current_tet nextface lastface hitfound d =
     (if depth d < 80 then
        (if \<not> hitfound then
           (case traverse_until_point_body mesh rayo rayd current_tet lastface endp d of
              Inl e \<Rightarrow> Inl e
            | Inr (nexttet', nextface', hitfound', d') \<Rightarrow>
                traverse_until_point_loop mesh rayo rayd endp nexttet' (Some nextface') nextface'
                  hitfound' (d'\<lparr>depth := depth d' + 1\<rparr>))
         else traverse_until_point_loop mesh rayo rayd endp current_tet nextface lastface hitfound
                (d\<lparr>depth := depth d + 1\<rparr>))
      else Inr (current_tet, nextface, hitfound, d))"
  by pat_completeness auto
termination
  apply (relation "measure (\<lambda>(mesh, rayo, rayd, endp, current_tet, nextface, lastface, hitfound, d).
        nat (80 - depth d))")
    apply simp
   apply (auto simp: traverse_until_point_body_def bnd_def split: sum.splits prod.splits if_splits)
  done

definition traverse_until_point ::
  "mesh2 \<Rightarrow> float4 \<Rightarrow> float4 \<Rightarrow> int \<Rightarrow> float4 \<Rightarrow> rayhit \<Rightarrow> error + rayhit" where
  "traverse_until_point mesh rayo rayd start endp d =
     (case traverse_until_point_loop mesh rayo rayd endp start None 0 False (d\<lparr>depth := 0\<rparr>) of
        Inl e \<Rightarrow> Inl e
      | Inr (current_tet, nextface, hitfound, d') \<Rightarrow>
          if \<not> hitfound then
            (case nextface of
               None \<Rightarrow> Inl Uninitialised
             | Some nextface' \<Rightarrow> Inr (d'\<lparr>dark := True, face := nextface', tet := current_tet\<rparr>))
          else Inr d')"

declare traverse_ray_loop.simps [simp del]
declare traverse_until_point_loop.simps [simp del]
declare GetTetrahedraFromPoint_loop.simps [simp del]
declare init_BBox_loop.simps [simp del]

section \<open>Meshes\<close>

text \<open>
  A mesh whose index references are valid: every per-tetrahedron array has \<open>tetnum\<close>
  elements and every per-node array \<open>nodenum\<close>, the two face arrays have the same
  length, node indices and face indices point into their arrays, and a neighbour index
  is \<open>-1\<close> or the index of a tetrahedron.
\<close>

definition mesh_ok :: "mesh2 \<Rightarrow> bool" where
  "mesh_ok mesh =
     (length (n_x mesh) = nodenum mesh \<and> length (n_y mesh) = nodenum mesh \<and>
      length (n_z mesh) = nodenum mesh \<and>
      length (face_is_wall mesh) = length (face_is_constrained mesh) \<and>
      (\<forall>a \<in> {t_nindex1 mesh, t_nindex2 mesh, t_nindex3 mesh, t_nindex4 mesh}.
         length a = tetnum mesh \<and> (\<forall>k \<in> set a. 0 \<le> k \<and> k < int (nodenum mesh))) \<and>
      (\<forall>a \<in> {t_findex1 mesh, t_findex2 mesh, t_findex3 mesh, t_findex4 mesh}.
         length a = tetnum mesh \<and>
         (\<forall>f \<in> set a. 0 \<le> f \<and> f < int (length (face_is_constrained mesh)))) \<and>
      (\<forall>a \<in> {t_adjtet1 mesh, t_adjtet2 mesh, t_adjtet3 mesh, t_adjtet4 mesh}.
         length a = tetnum mesh \<and> (\<forall>t \<in> set a. - 1 \<le> t \<and> t < int (tetnum mesh))))"

text \<open>
  The mesh of the scenario of section 8 of the specification: the one tetrahedron with
  vertices \<open>(0,0,0)\<close>, \<open>(1,0,0)\<close>, \<open>(0,1,0)\<close>, \<open>(0,0,1)\<close>, no neighbours, and four faces
  with the given flags. Face slot \<open>k\<close> holds face \<open>k\<close>.
\<close>

definition unit_tet_mesh :: "bool \<Rightarrow> bool \<Rightarrow> mesh2" where
  "unit_tet_mesh is_constrained is_wall =
     \<lparr>tetnum = 1, nodenum = 4,
      n_x = [0, 1, 0, 0], n_y = [0, 0, 1, 0], n_z = [0, 0, 0, 1],
      t_nindex1 = [0], t_nindex2 = [1], t_nindex3 = [2], t_nindex4 = [3],
      t_findex1 = [0], t_findex2 = [1], t_findex3 = [2], t_findex4 = [3],
      t_adjtet1 = [- 1], t_adjtet2 = [- 1], t_adjtet3 = [- 1], t_adjtet4 = [- 1],
      face_is_constrained = [is_constrained, is_constrained, is_constrained, is_constrained],
      face_is_wall = [is_wall, is_wall, is_wall, is_wall]\<rparr>"

text \<open>A mesh of the two nodes \<open>(0,0,0)\<close> and \<open>(1,1,1)\<close> and no tetrahedron.\<close>

definition two_node_mesh :: mesh2 where
  "two_node_mesh =
     \<lparr>tetnum = 0, nodenum = 2,
      n_x = [0, 1], n_y = [0, 1], n_z = [0, 1],
      t_nindex1 = [], t_nindex2 = [], t_nindex3 = [], t_nindex4 = [],
      t_findex1 = [], t_findex2 = [], t_findex3 = [], t_findex4 = [],
      t_adjtet1 = [], t_adjtet2 = [], t_adjtet3 = [], t_adjtet4 = [],
      face_is_constrained = [], face_is_wall = []\<rparr>"

text \<open>A \<^verbatim>\<open>rayhit\<close> as its default member initialisers leave it, at position \<open>p\<close>.\<close>

definition fresh_rayhit :: "float4 \<Rightarrow> rayhit" where
  "fresh_rayhit p =
     \<lparr>pos = p, tet = 0, face = 0, depth = 0, wall = False, constrained = False, dark = False\<rparr>"

section \<open>Properties of the exit-face resolver\<close>

lemma exit_conditions_pairwise:
  "\<not> (exit_ABC sQAB sQAC sQBC \<and> exit_BAD sQAB sQAD sQBD)"
  "\<not> (exit_ABC sQAB sQAC sQBC \<and> exit_CDA sQAD sQAC sQCD)"
  "\<not> (exit_ABC sQAB sQAC sQBC \<and> exit_DCB sQBC sQBD sQCD)"
  "\<not> (exit_BAD sQAB sQAD sQBD \<and> exit_CDA sQAD sQAC sQCD)"
  "\<not> (exit_BAD sQAB sQAD sQBD \<and> exit_DCB sQBC sQBD sQCD)"
  "\<not> (exit_CDA sQAD sQAC sQCD \<and> exit_DCB sQBC sQBD sQCD)"
  by (simp_all add: exit_ABC_def exit_BAD_def exit_CDA_def exit_DCB_def)

text \<open>The chained conditionals, block by block, in terms of the four sign patterns.\<close>

lemma GetExitTet_select_blocks:
  "GetExitTet_select sQAB sQBC sQAC sQAD sQBD sQCD (f0, f1, f2, f3) (a0, a1, a2, a3) =
     (let r1 = (if exit_ABC sQAB sQAC sQBC then (f3, a3) else (0, 0));
          r2 = (if exit_BAD sQAB sQAD sQBD then (f2, a2) else r1);
          r3 = (if exit_CDA sQAD sQAC sQCD then (f1, a1) else r2)
      in (if exit_DCB sQBC sQBD sQCD then (f0, a0) else r3))"
  unfolding GetExitTet_select_def exit_ABC_def exit_BAD_def exit_CDA_def exit_DCB_def Let_def
  by (simp only: split_conv if_distrib[symmetric] cong: if_cong) (simp cong: if_cong)

text \<open>
  C7 as stated has every ray that meets the interior of the tetrahedron match exactly one
  face. The ray from the centroid \<open>(1/4, 1/4, 1/4)\<close> of the unit tetrahedron in
  direction \<open>(-1, -1, -1)\<close> starts inside and leaves through the vertex \<open>(0,0,0)\<close>:
  three products are zero and no condition holds.
\<close>

theorem interior_ray_no_match_counterexample:
  "IsPointInTetrahedron (make_float4 0 0 0 0) (make_float4 1 0 0 0) (make_float4 0 1 0 0)
     (make_float4 0 0 1 0) (make_float4 (1/4) (1/4) (1/4) 0) \<and>
   GetExitTet_signs (make_float4 (1/4) (1/4) (1/4) 0) (make_float4 (- 1) (- 1) (- 1) 0)
     (make_float4 0 0 0 0, make_float4 1 0 0 0, make_float4 0 1 0 0, make_float4 0 0 1 0) =
     (0, - 1, 0, 0, 1, - 1) \<and>
   exit_matches 0 (- 1) 0 0 1 (- 1) = 0"
proof (intro conjI)
  show "IsPointInTetrahedron (make_float4 0 0 0 0) (make_float4 1 0 0 0) (make_float4 0 1 0 0)
     (make_float4 0 0 1 0) (make_float4 (1/4) (1/4) (1/4) 0)"
    by (simp add: IsPointInTetrahedron_def SameSide_def Cross_def Dot_def sub4_def signf_def
        Let_def)
  show "GetExitTet_signs (make_float4 (1/4) (1/4) (1/4) 0) (make_float4 (- 1) (- 1) (- 1) 0)
     (make_float4 0 0 0 0, make_float4 1 0 0 0, make_float4 0 1 0 0, make_float4 0 0 1 0) =
     (0, - 1, 0, 0, 1, - 1)"
    by (simp add: GetExitTet_signs_def sub4_def ScTP_def Dot_def Cross_def signf_def Let_def)
  show "exit_matches 0 (- 1) 0 0 1 (- 1) = 0"
    by (simp add: exit_matches_def exit_ABC_def exit_BAD_def exit_CDA_def exit_DCB_def)
qed

text \<open>
  C7 (amended). For every assignment of signs to the six scalar triple products the four
  exit-face conditions (ABC, BAD, CDA, DCB) are pairwise mutually exclusive, so at most
  one of them holds: a ray matches at most one face, possibly none, and the chained
  conditionals assign the outputs at most once. The result is the pair of the one
  matching face slot, or the initial \<open>(0, 0)\<close>.
\<close>

theorem GetExitTet_conditions_exclusive:
  "\<not> (exit_ABC sQAB sQAC sQBC \<and> exit_BAD sQAB sQAD sQBD) \<and>
   \<not> (exit_ABC sQAB sQAC sQBC \<and> exit_CDA sQAD sQAC sQCD) \<and>
   \<not> (exit_ABC sQAB sQAC sQBC \<and> exit_DCB sQBC sQBD sQCD) \<and>
   \<not> (exit_BAD sQAB sQAD sQBD \<and> exit_CDA sQAD sQAC sQCD) \<and>
   \<not> (exit_BAD sQAB sQAD sQBD \<and> exit_DCB sQBC sQBD sQCD) \<and>
   \<not> (exit_CDA sQAD sQAC sQCD \<and> exit_DCB sQBC sQBD sQCD) \<and>
   exit_matches sQAB sQBC sQAC sQAD sQBD sQCD \<le> 1 \<and>
   GetExitTet_select sQAB sQBC sQAC sQAD sQBD sQCD (f0, f1, f2, f3) (a0, a1, a2, a3) =
     (if exit_ABC sQAB sQAC sQBC then (f3, a3)
      else if exit_BAD sQAB sQAD sQBD then (f2, a2)
      else if exit_CDA sQAD sQAC sQCD then (f1, a1)
      else if exit_DCB sQBC sQBD sQCD then (f0, a0)
      else (0, 0))"
proof -
  note ex = exit_conditions_pairwise
  have cnt: "exit_matches sQAB sQBC sQAC sQAD sQBD sQCD \<le> 1"
    using ex by (auto simp: exit_matches_def)
  have sel: "GetExitTet_select sQAB sQBC sQAC sQAD sQBD sQCD (f0, f1, f2, f3) (a0, a1, a2, a3) =
     (if exit_ABC sQAB sQAC sQBC then (f3, a3)
      else if exit_BAD sQAB sQAD sQBD then (f2, a2)
      else if exit_CDA sQAD sQAC sQCD then (f1, a1)
      else if exit_DCB sQBC sQBD sQCD then (f0, a0)
      else (0, 0))"
    using ex unfolding GetExitTet_select_blocks Let_def by auto
  show ?thesis
    by (intro conjI ex cnt sel)
qed

section \<open>Properties of the traversal loop\<close>

lemma bnd_simps [simp]: "bnd (Inl e) f = Inl e" "bnd (Inr v) f = f v"
  by (simp_all add: bnd_def)

lemma idx_out_of_range: "i < 0 \<or> int (length a) \<le> i \<Longrightarrow> idx a i = Inl OutOfRange"
  by (auto simp: idx_def)

text \<open>What the guarded body of \<^verbatim>\<open>traverse_ray\<close> returns when its reads are in range.\<close>

lemma traverse_ray_body_eq:
  assumes "tet_findex mesh current_tet = Inr findex"
    and "tet_adjtets mesh current_tet = Inr adjtets"
    and "tet_nodes mesh current_tet = Inr nodes"
    and "GetExitTet rayo rayd nodes findex adjtets lastface = (nextface, nexttet)"
    and "idx (face_is_constrained mesh) nextface = Inr fc"
    and "idx (face_is_wall mesh) nextface = Inr fw"
  shows "traverse_ray_body mesh rayo rayd current_tet lastface d =
     Inr (nexttet, nextface, fc \<or> fw \<or> nexttet = - 1 \<or> nextface = - 1,
          if fc \<or> fw \<or> nexttet = - 1 \<or> nextface = - 1
          then d\<lparr>constrained := constrained d \<or> fc,
                 wall := wall d \<or> fw \<or> nexttet = - 1 \<or> nextface = - 1,
                 face := nextface, tet := current_tet\<rparr>
          else d)"
  using assms by (cases fc; cases fw; cases "nexttet = - 1 \<or> nextface = - 1")
    (simp_all add: traverse_ray_body_def)

lemma traverse_ray_body_depth:
  "traverse_ray_body mesh rayo rayd current_tet lastface d = Inr (nexttet, nextface, h, d') \<Longrightarrow>
   depth d' = depth d"
  by (auto simp: traverse_ray_body_def bnd_def split: sum.splits prod.splits if_splits)

lemma traverse_ray_loop_hit:
  "depth d \<le> 80 \<Longrightarrow>
   traverse_ray_loop mesh rayo rayd current_tet nextface lastface True d =
     Inr (current_tet, nextface, True, d\<lparr>depth := 80\<rparr>)"
proof (induction "nat (80 - depth d)" arbitrary: d)
  case 0
  then have "depth d = 80" by simp
  then have "d\<lparr>depth := 80\<rparr> = d" by simp
  with \<open>depth d = 80\<close> show ?case by (subst traverse_ray_loop.simps) simp
next
  case (Suc n)
  then have lt: "depth d < 80" by simp
  have "traverse_ray_loop mesh rayo rayd current_tet nextface lastface True (d\<lparr>depth := depth d + 1\<rparr>)
      = Inr (current_tet, nextface, True, d\<lparr>depth := depth d + 1\<rparr>\<lparr>depth := 80\<rparr>)"
    using Suc by (intro Suc.hyps(1)) auto
  with lt show ?case by (subst traverse_ray_loop.simps) simp
qed

lemma traverse_ray_loop_depth:
  "traverse_ray_loop mesh rayo rayd current_tet nextface lastface hitfound d =
     Inr (current_tet', nextface', hitfound', d') \<Longrightarrow> depth d \<le> 80 \<Longrightarrow> depth d' = 80"
proof (induction mesh rayo rayd current_tet nextface lastface hitfound d
    rule: traverse_ray_loop.induct)
  case (1 mesh rayo rayd current_tet nextface lastface hitfound d)
  show ?case
  proof (cases "depth d < 80")
    case False
    with "1.prems" show ?thesis by (subst (asm) traverse_ray_loop.simps) simp
  next
    case lt: True
    show ?thesis
    proof (cases hitfound)
      case True
      with lt "1.prems" "1.IH"(2) show ?thesis
        by (subst (asm) traverse_ray_loop.simps) simp
    next
      case False
      from "1.prems"(1) lt False obtain nt nf h d1 where
        b: "traverse_ray_body mesh rayo rayd current_tet lastface d = Inr (nt, nf, h, d1)"
        and l: "traverse_ray_loop mesh rayo rayd nt (Some nf) nf h (d1\<lparr>depth := depth d1 + 1\<rparr>)
                = Inr (current_tet', nextface', hitfound', d')"
        by (subst (asm) traverse_ray_loop.simps) (auto split: sum.splits)
      from b have "depth d1 = depth d" by (rule traverse_ray_body_depth)
      with lt have "depth (d1\<lparr>depth := depth d1 + 1\<rparr>) \<le> 80" by simp
      from "1.IH"(1) [OF lt False b refl refl refl l this] show ?thesis .
    qed
  qed
qed

lemma traverse_ray_loop_invariant:
  assumes run: "traverse_ray_loop mesh rayo rayd current_tet nextface lastface hitfound d = Inr res"
    and init: "I (current_tet, nextface, hitfound, d)"
    and skip: "\<And>ct nf d. I (ct, nf, True, d) \<Longrightarrow> depth d < 80 \<Longrightarrow>
                 I (ct, nf, True, d\<lparr>depth := depth d + 1\<rparr>)"
    and step: "\<And>ct nf lf d nt nf' h' d1. I (ct, nf, False, d) \<Longrightarrow> depth d < 80 \<Longrightarrow>
                 traverse_ray_body mesh rayo rayd ct lf d = Inr (nt, nf', h', d1) \<Longrightarrow>
                 I (nt, Some nf', h', d1\<lparr>depth := depth d1 + 1\<rparr>)"
  shows "I res"
  using run init skip step
proof (induction mesh rayo rayd current_tet nextface lastface hitfound d
    rule: traverse_ray_loop.induct)
  case (1 mesh rayo rayd current_tet nextface lastface hitfound d)
  note skip' = "1.prems"(3) and step' = "1.prems"(4)
  show ?case
  proof (cases "depth d < 80")
    case False
    with "1.prems"(1,2) show ?thesis by (subst (asm) traverse_ray_loop.simps) simp
  next
    case lt: True
    show ?thesis
    proof (cases hitfound)
      case True
      from "1.prems"(1) lt True have l:
        "traverse_ray_loop mesh rayo rayd current_tet nextface lastface hitfound
           (d\<lparr>depth := depth d + 1\<rparr>) = Inr res"
        by (subst (asm) traverse_ray_loop.simps) simp
      have "I (current_tet, nextface, True, d)" using "1.prems"(2) True by simp
      from skip' [OF this lt] have "I (current_tet, nextface, hitfound, d\<lparr>depth := depth d + 1\<rparr>)"
        using True by simp
      from "1.IH"(2) [OF lt _ l this skip' step'] True show ?thesis by simp
    next
      case False
      from "1.prems"(1) lt False obtain nt nf h d1 where
        b: "traverse_ray_body mesh rayo rayd current_tet lastface d = Inr (nt, nf, h, d1)"
        and l: "traverse_ray_loop mesh rayo rayd nt (Some nf) nf h (d1\<lparr>depth := depth d1 + 1\<rparr>)
                = Inr res"
        by (subst (asm) traverse_ray_loop.simps) (auto split: sum.splits)
      have "I (current_tet, nextface, False, d)" using "1.prems"(2) False by simp
      from step' [OF this lt b] have "I (nt, Some nf, h, d1\<lparr>depth := depth d1 + 1\<rparr>)" .
      from "1.IH"(1) [OF lt False b refl refl refl l this skip' step'] show ?thesis .
    qed
  qed
qed

lemma traverse_ray_body_flags:
  "traverse_ray_body mesh rayo rayd current_tet lastface d = Inr (nexttet, nextface, h, d') \<Longrightarrow>
   dark d' = dark d \<and> depth d' = depth d \<and> pos d' = pos d \<and>
   (h \<longrightarrow> (wall d' \<or> constrained d') \<and> tet d' = current_tet \<and> face d' = nextface) \<and>
   (\<not> h \<longrightarrow> d' = d)"
  by (auto simp: traverse_ray_body_def bnd_def split: sum.splits prod.splits if_splits)

lemma traverse_ray_loop_flags:
  assumes "traverse_ray_loop mesh rayo rayd current_tet nextface lastface False d =
     Inr (current_tet', nextface', hitfound', d')"
   and "depth d < 80"
  shows "dark d' = dark d \<and> nextface' \<noteq> None \<and> depth d' = 80 \<and>
         (hitfound' \<longrightarrow> wall d' \<or> constrained d') \<and>
         (\<not> hitfound' \<longrightarrow> wall d' = wall d \<and> constrained d' = constrained d)"
proof -
  let ?I = "\<lambda>(ct, nf, h, e). dark e = dark d \<and> depth e \<le> 80 \<and>
              (depth e = depth d \<and> \<not> h \<or> nf \<noteq> None) \<and>
              (h \<longrightarrow> wall e \<or> constrained e) \<and>
              (\<not> h \<longrightarrow> wall e = wall d \<and> constrained e = constrained d)"
  have "?I (current_tet', nextface', hitfound', d')"
  proof (rule traverse_ray_loop_invariant [OF assms(1), where I = ?I])
    show "?I (current_tet, nextface, False, d)" using assms(2) by simp
  next
    fix ct nf e assume "?I (ct, nf, True, e)" "depth e < 80"
    then show "?I (ct, nf, True, e\<lparr>depth := depth e + 1\<rparr>)" by simp
  next
    fix ct nf lf e nt nf' h' d1
    assume "?I (ct, nf, False, e)" "depth e < 80"
      "traverse_ray_body mesh rayo rayd ct lf e = Inr (nt, nf', h', d1)"
    then show "?I (nt, Some nf', h', d1\<lparr>depth := depth d1 + 1\<rparr>)"
      using traverse_ray_body_flags [of mesh rayo rayd ct lf e nt nf' h' d1] by auto
  qed
  moreover have "depth d' = 80"
    using traverse_ray_loop_depth [OF assms(1)] assms(2) by simp
  ultimately show ?thesis using assms(2) by auto
qed

section \<open>The traversal on valid meshes\<close>

lemma GetExitTet_cases:
  "GetExitTet ray_o ray_d nodes (f0, f1, f2, f3) (a0, a1, a2, a3) lface
     \<in> {(0, 0), (f0, a0), (f1, a1), (f2, a2), (f3, a3)}"
  by (simp add: GetExitTet_def GetExitTet_select_blocks Let_def split: prod.splits)

lemma GetExitTet_no_match:
  "no_exit_match ray_o ray_d nodes \<Longrightarrow> GetExitTet ray_o ray_d nodes findex adjtet lface = (0, 0)"
  by (cases findex; cases adjtet)
     (auto simp: no_exit_match_def GetExitTet_def GetExitTet_select_blocks exit_matches_def
       split: prod.splits if_splits)

lemma mesh_ok_tet_findex:
  assumes "mesh_ok mesh" "0 \<le> t" "t < int (tetnum mesh)"
  shows "\<exists>f0 f1 f2 f3. tet_findex mesh t = Inr (f0, f1, f2, f3) \<and>
           (\<forall>f \<in> {f0, f1, f2, f3}. 0 \<le> f \<and> f < int (length (face_is_constrained mesh)))"
proof -
  have "\<And>a. a \<in> {t_findex1 mesh, t_findex2 mesh, t_findex3 mesh, t_findex4 mesh} \<Longrightarrow>
          idx a t = Inr (a ! nat t) \<and> 0 \<le> a ! nat t \<and>
          a ! nat t < int (length (face_is_constrained mesh))"
  proof -
    fix a assume "a \<in> {t_findex1 mesh, t_findex2 mesh, t_findex3 mesh, t_findex4 mesh}"
    with assms(1) have l: "length a = tetnum mesh"
      and r: "\<forall>f \<in> set a. 0 \<le> f \<and> f < int (length (face_is_constrained mesh))"
      unfolding mesh_ok_def by blast+
    from l assms(2,3) have "nat t < length a" by simp
    with r have "0 \<le> a ! nat t \<and> a ! nat t < int (length (face_is_constrained mesh))"
      using nth_mem by blast
    with l assms(2,3) show "idx a t = Inr (a ! nat t) \<and> 0 \<le> a ! nat t \<and>
          a ! nat t < int (length (face_is_constrained mesh))"
      by (simp add: idx_def)
  qed
  then show ?thesis by (simp add: tet_findex_def)
qed

lemma mesh_ok_tet_adjtets:
  assumes "mesh_ok mesh" "0 \<le> t" "t < int (tetnum mesh)"
  shows "\<exists>a0 a1 a2 a3. tet_adjtets mesh t = Inr (a0, a1, a2, a3) \<and>
           (\<forall>a \<in> {a0, a1, a2, a3}. - 1 \<le> a \<and> a < int (tetnum mesh))"
proof -
  have "\<And>a. a \<in> {t_adjtet1 mesh, t_adjtet2 mesh, t_adjtet3 mesh, t_adjtet4 mesh} \<Longrightarrow>
          idx a t = Inr (a ! nat t) \<and> - 1 \<le> a ! nat t \<and> a ! nat t < int (tetnum mesh)"
  proof -
    fix a assume "a \<in> {t_adjtet1 mesh, t_adjtet2 mesh, t_adjtet3 mesh, t_adjtet4 mesh}"
    with assms(1) have l: "length a = tetnum mesh"
      and r: "\<forall>t \<in> set a. - 1 \<le> t \<and> t < int (tetnum mesh)"
      unfolding mesh_ok_def by blast+
    from l assms(2,3) have "nat t < length a" by simp
    with r have "- 1 \<le> a ! nat t \<and> a ! nat t < int (tetnum mesh)"
      using nth_mem by blast
    with l assms(2,3) show "idx a t = Inr (a ! nat t) \<and> - 1 \<le> a ! nat t \<and>
          a ! nat t < int (tetnum mesh)"
      by (simp add: idx_def)
  qed
  then show ?thesis by (simp add: tet_adjtets_def)
qed

lemma mesh_ok_tet_nodes:
  assumes "mesh_ok mesh" "0 \<le> t" "t < int (tetnum mesh)"
  shows "\<exists>nodes. tet_nodes mesh t = Inr nodes"
proof -
  have "\<And>a. a \<in> {t_nindex1 mesh, t_nindex2 mesh, t_nindex3 mesh, t_nindex4 mesh} \<Longrightarrow>
          \<exists>v. bnd (idx a t) (node_pos mesh) = Inr v"
  proof -
    fix a assume "a \<in> {t_nindex1 mesh, t_nindex2 mesh, t_nindex3 mesh, t_nindex4 mesh}"
    with assms(1) have l: "length a = tetnum mesh"
      and r: "\<forall>k \<in> set a. 0 \<le> k \<and> k < int (nodenum mesh)"
      unfolding mesh_ok_def by blast+
    from l assms(2,3) have "nat t < length a" by simp
    with r have k: "0 \<le> a ! nat t \<and> a ! nat t < int (nodenum mesh)"
      using nth_mem by blast
    from assms(1) have "length (n_x mesh) = nodenum mesh" "length (n_y mesh) = nodenum mesh"
      "length (n_z mesh) = nodenum mesh"
      unfolding mesh_ok_def by blast+
    with k l assms(2,3) show "\<exists>v. bnd (idx a t) (node_pos mesh) = Inr v"
      by (simp add: idx_def node_pos_def)
  qed
  then have "\<exists>v. bnd (idx (t_nindex1 mesh) t) (node_pos mesh) = Inr v"
    "\<exists>v. bnd (idx (t_nindex2 mesh) t) (node_pos mesh) = Inr v"
    "\<exists>v. bnd (idx (t_nindex3 mesh) t) (node_pos mesh) = Inr v"
    "\<exists>v. bnd (idx (t_nindex4 mesh) t) (node_pos mesh) = Inr v"
    by simp_all
  then show ?thesis unfolding tet_nodes_def by (elim exE) simp
qed

text \<open>
  In a valid mesh the body succeeds in a valid tetrahedron, and it stops or moves to a
  valid tetrahedron.
\<close>

lemma traverse_ray_body_ok:
  assumes ok: "mesh_ok mesh" and t: "0 \<le> current_tet" "current_tet < int (tetnum mesh)"
  shows "\<exists>nexttet nextface h d'.
           traverse_ray_body mesh rayo rayd current_tet lastface d = Inr (nexttet, nextface, h, d') \<and>
           (\<not> h \<longrightarrow> 0 \<le> nexttet \<and> nexttet < int (tetnum mesh))"
proof -
  from mesh_ok_tet_findex [OF ok t] obtain f0 f1 f2 f3 where
    fi: "tet_findex mesh current_tet = Inr (f0, f1, f2, f3)"
    and fr: "\<forall>f \<in> {f0, f1, f2, f3}. 0 \<le> f \<and> f < int (length (face_is_constrained mesh))"
    by blast
  from mesh_ok_tet_adjtets [OF ok t] obtain a0 a1 a2 a3 where
    ad: "tet_adjtets mesh current_tet = Inr (a0, a1, a2, a3)"
    and ar: "\<forall>a \<in> {a0, a1, a2, a3}. - 1 \<le> a \<and> a < int (tetnum mesh)"
    by blast
  from mesh_ok_tet_nodes [OF ok t] obtain nodes where
    no: "tet_nodes mesh current_tet = Inr nodes" by blast
  obtain nextface nexttet where
    g: "GetExitTet rayo rayd nodes (f0, f1, f2, f3) (a0, a1, a2, a3) lastface = (nextface, nexttet)"
    by (cases "GetExitTet rayo rayd nodes (f0, f1, f2, f3) (a0, a1, a2, a3) lastface")
  from GetExitTet_cases [of rayo rayd nodes f0 f1 f2 f3 a0 a1 a2 a3 lastface] g
  have mem: "(nextface, nexttet) \<in> {(0, 0), (f0, a0), (f1, a1), (f2, a2), (f3, a3)}" by simp
  from fr have "0 < int (length (face_is_constrained mesh))" by auto
  with mem fr have nf: "0 \<le> nextface \<and> nextface < int (length (face_is_constrained mesh))"
    by auto
  from mem ar t have nt: "- 1 \<le> nexttet \<and> nexttet < int (tetnum mesh)" by auto
  from ok have "length (face_is_wall mesh) = length (face_is_constrained mesh)"
    unfolding mesh_ok_def by blast
  with nf have rc: "idx (face_is_constrained mesh) nextface = Inr (face_is_constrained mesh ! nat nextface)"
    and rw: "idx (face_is_wall mesh) nextface = Inr (face_is_wall mesh ! nat nextface)"
    by (simp_all add: idx_def)
  from nt show ?thesis
    unfolding traverse_ray_body_eq [OF fi ad no g rc rw] by auto
qed

lemma traverse_ray_loop_ok:
  "mesh_ok mesh \<Longrightarrow> hitfound \<or> 0 \<le> current_tet \<and> current_tet < int (tetnum mesh) \<Longrightarrow>
   \<exists>res. traverse_ray_loop mesh rayo rayd current_tet nextface lastface hitfound d = Inr res"
proof (induction mesh rayo rayd current_tet nextface lastface hitfound d
    rule: traverse_ray_loop.induct)
  case (1 mesh rayo rayd current_tet nextface lastface hitfound d)
  show ?case
  proof (cases "depth d < 80")
    case False
    then show ?thesis by (subst traverse_ray_loop.simps) simp
  next
    case lt: True
    show ?thesis
    proof (cases hitfound)
      case True
      with lt "1.IH"(2) "1.prems" show ?thesis
        by (subst traverse_ray_loop.simps) simp
    next
      case False
      with "1.prems" have t: "0 \<le> current_tet" "current_tet < int (tetnum mesh)" by simp_all
      from traverse_ray_body_ok [OF "1.prems"(1) t] obtain nt nf h d1 where
        b: "traverse_ray_body mesh rayo rayd current_tet lastface d = Inr (nt, nf, h, d1)"
        and v: "\<not> h \<longrightarrow> 0 \<le> nt \<and> nt < int (tetnum mesh)"
        by blast
      from v have "h \<or> 0 \<le> nt \<and> nt < int (tetnum mesh)" by blast
      from "1.IH"(1) [OF lt False b refl refl refl "1.prems"(1) this] lt False b
      show ?thesis by (subst traverse_ray_loop.simps) simp
    qed
  qed
qed

section \<open>Results of \<^verbatim>\<open>traverse_ray\<close>\<close>

text \<open>The only error of the traversal is a read out of range.\<close>

lemma idx_error: "idx a i = Inl e \<Longrightarrow> e = OutOfRange"
  by (simp add: idx_def split: if_splits)

lemma bnd_error:
  "bnd r f = Inl e \<Longrightarrow> (r = Inl e \<Longrightarrow> P) \<Longrightarrow> (\<And>v. r = Inr v \<Longrightarrow> f v = Inl e \<Longrightarrow> P) \<Longrightarrow> P"
  by (cases r) simp_all

lemma node_pos_error: "node_pos mesh k = Inl e \<Longrightarrow> e = OutOfRange"
  unfolding node_pos_def by (auto elim!: bnd_error dest: idx_error)

lemma tet_nodes_error: "tet_nodes mesh t = Inl e \<Longrightarrow> e = OutOfRange"
  unfolding tet_nodes_def by (auto elim!: bnd_error dest: idx_error node_pos_error)

lemma tet_findex_error: "tet_findex mesh t = Inl e \<Longrightarrow> e = OutOfRange"
  unfolding tet_findex_def by (auto elim!: bnd_error dest: idx_error)

lemma tet_adjtets_error: "tet_adjtets mesh t = Inl e \<Longrightarrow> e = OutOfRange"
  unfolding tet_adjtets_def by (auto elim!: bnd_error dest: idx_error)

lemma traverse_ray_body_error:
  "traverse_ray_body mesh rayo rayd current_tet lastface d = Inl e \<Longrightarrow> e = OutOfRange"
  unfolding traverse_ray_body_def
  by (auto elim!: bnd_error dest: idx_error tet_nodes_error tet_findex_error tet_adjtets_error
      split: prod.splits if_splits)

lemma traverse_ray_loop_error:
  "traverse_ray_loop mesh rayo rayd current_tet nextface lastface hitfound d = Inl e \<Longrightarrow>
   e = OutOfRange"
proof (induction mesh rayo rayd current_tet nextface lastface hitfound d
    rule: traverse_ray_loop.induct)
  case (1 mesh rayo rayd current_tet nextface lastface hitfound d)
  show ?case
  proof (cases "depth d < 80")
    case False
    with "1.prems" show ?thesis by (subst (asm) traverse_ray_loop.simps) simp
  next
    case lt: True
    show ?thesis
    proof (cases hitfound)
      case True
      with lt "1.IH"(2) "1.prems" show ?thesis
        by (subst (asm) traverse_ray_loop.simps) simp
    next
      case False
      show ?thesis
      proof (cases "traverse_ray_body mesh rayo rayd current_tet lastface d")
        case (Inl e')
        with "1.prems" lt False have "e' = e"
          by (subst (asm) traverse_ray_loop.simps) simp
        with Inl show ?thesis by (simp add: traverse_ray_body_error)
      next
        case (Inr r)
        obtain nt nf h d1 where r: "r = (nt, nf, h, d1)" by (cases r)
        from "1.prems" lt False Inr r have
          "traverse_ray_loop mesh rayo rayd nt (Some nf) nf h (d1\<lparr>depth := depth d1 + 1\<rparr>) = Inl e"
          by (subst (asm) traverse_ray_loop.simps) simp
        from "1.IH"(1) [OF lt False _ refl refl refl this] Inr r show ?thesis by simp
      qed
    qed
  qed
qed

lemma traverse_ray_result:
  "traverse_ray mesh rayo rayd start d = Inl OutOfRange \<or>
   (\<exists>h. traverse_ray mesh rayo rayd start d = Inr h \<and> depth h = 80)"
proof (cases "traverse_ray_loop mesh rayo rayd start None 0 False (d\<lparr>depth := 0\<rparr>)")
  case (Inl e)
  then have "e = OutOfRange" by (rule traverse_ray_loop_error)
  with Inl show ?thesis by (simp add: traverse_ray_def)
next
  case (Inr r)
  obtain ct nf h d' where r: "r = (ct, nf, h, d')" by (cases r)
  from traverse_ray_loop_flags [OF Inr [unfolded r]]
  have "nf \<noteq> None" "depth d' = 80" by simp_all
  with Inr r show ?thesis by (auto simp: traverse_ray_def)
qed

lemma traverse_ray_ok:
  assumes "mesh_ok mesh" "0 \<le> start" "start < int (tetnum mesh)"
  shows "\<exists>h. traverse_ray mesh rayo rayd start d = Inr h"
proof -
  from traverse_ray_loop_ok [of mesh False start rayo rayd None 0 "d\<lparr>depth := 0\<rparr>"] assms
  obtain r where "traverse_ray_loop mesh rayo rayd start None 0 False (d\<lparr>depth := 0\<rparr>) = Inr r"
    by auto
  then have "traverse_ray mesh rayo rayd start d \<noteq> Inl OutOfRange"
    by (simp add: traverse_ray_def split: prod.splits option.splits)
  with traverse_ray_result [of mesh rayo rayd start d] show ?thesis by blast
qed

text \<open>
  C10. For every input, \<^verbatim>\<open>traverse_ray\<close> returns with \<^verbatim>\<open>depth\<close> equal to 80: the loop
  has no early exit, so the counter always runs to 80 and never records the step at which
  the walk stopped. The one other outcome of the model is a read out of range, where C++
  defines no behaviour; on a valid mesh with a valid start it does not occur.
\<close>

theorem traverse_ray_depth_80:
  "(traverse_ray mesh rayo rayd start d = Inl OutOfRange \<or>
    (\<exists>h. traverse_ray mesh rayo rayd start d = Inr h \<and> depth h = 80)) \<and>
   (mesh_ok mesh \<and> 0 \<le> start \<and> start < int (tetnum mesh) \<longrightarrow>
    (\<exists>h. traverse_ray mesh rayo rayd start d = Inr h \<and> depth h = 80))"
  using traverse_ray_result [of mesh rayo rayd start d] traverse_ray_ok [of mesh start rayo rayd d]
  by auto

theorem traverse_ray_depth_80_witness:
  "mesh_ok (unit_tet_mesh False True) \<and> (0::int) \<le> 0 \<and> 0 < int (tetnum (unit_tet_mesh False True)) \<and>
   (\<exists>h. traverse_ray (unit_tet_mesh False True) (make_float4 (1/10) (1/10) (1/10) 0)
          (make_float4 1 1 1 0) 0 (fresh_rayhit (make_float4 0 0 0 0)) = Inr h \<and> depth h = 80)"
  using traverse_ray_depth_80 [of "unit_tet_mesh False True" "make_float4 (1/10) (1/10) (1/10) 0"
          "make_float4 1 1 1 0" 0 "fresh_rayhit (make_float4 0 0 0 0)"]
  by (simp add: mesh_ok_def unit_tet_mesh_def)

section \<open>The scenario of the unit tetrahedron\<close>

text \<open>The reads of the one tetrahedron of \<open>unit_tet_mesh\<close>, and the ray of the scenario.\<close>

lemma idx_list_simps:
  "idx [a] 0 = Inr a"
  "idx [a, b, c, e] 0 = Inr a" "idx [a, b, c, e] 1 = Inr b"
  "idx [a, b, c, e] 2 = Inr c" "idx [a, b, c, e] 3 = Inr e"
  by (simp_all add: idx_def)

lemma unit_tet_reads:
  "tet_findex (unit_tet_mesh c w) 0 = Inr (0, 1, 2, 3)"
  "tet_adjtets (unit_tet_mesh c w) 0 = Inr (- 1, - 1, - 1, - 1)"
  "tet_nodes (unit_tet_mesh c w) 0 =
     Inr (make_float4 0 0 0 0, make_float4 1 0 0 0, make_float4 0 1 0 0, make_float4 0 0 1 0)"
  "idx (face_is_constrained (unit_tet_mesh c w)) 0 = Inr c"
  "idx (face_is_wall (unit_tet_mesh c w)) 0 = Inr w"
  by (simp_all add: unit_tet_mesh_def tet_findex_def tet_adjtets_def tet_nodes_def node_pos_def
      idx_list_simps)

lemma unit_tet_signs_diagonal:
  "GetExitTet_signs (make_float4 (1/10) (1/10) (1/10) 0) (make_float4 1 1 1 0)
     (make_float4 0 0 0 0, make_float4 1 0 0 0, make_float4 0 1 0 0, make_float4 0 0 1 0) =
   (0, 1, 0, 0, - 1, 1)"
  by (simp add: GetExitTet_signs_def sub4_def ScTP_def Dot_def Cross_def signf_def Let_def)

lemma unit_tet_exit_diagonal:
  "GetExitTet (make_float4 (1/10) (1/10) (1/10) 0) (make_float4 1 1 1 0)
     (make_float4 0 0 0 0, make_float4 1 0 0 0, make_float4 0 1 0 0, make_float4 0 0 1 0)
     (0, 1, 2, 3) (- 1, - 1, - 1, - 1) lface = (0, - 1)"
  by (simp add: GetExitTet_def unit_tet_signs_diagonal GetExitTet_select_def)

text \<open>A walk that stops in its first iteration.\<close>

lemma traverse_ray_first_hit:
  assumes "traverse_ray_body mesh rayo rayd start 0 (d\<lparr>depth := 0\<rparr>) = Inr (nexttet, nextface, True, d')"
  shows "traverse_ray mesh rayo rayd start d = Inr (d'\<lparr>depth := 80\<rparr>)"
proof -
  from assms have "depth d' = 0" by (auto dest: traverse_ray_body_depth)
  then show ?thesis
    unfolding traverse_ray_def
    by (subst traverse_ray_loop.simps) (simp add: assms traverse_ray_loop_hit)
qed

lemma unit_tet_walls_diagonal:
  "traverse_ray (unit_tet_mesh False True) (make_float4 (1/10) (1/10) (1/10) 0)
     (make_float4 1 1 1 0) 0 (fresh_rayhit p) =
   Inr \<lparr>pos = p, tet = 0, face = 0, depth = 80, wall = True, constrained = False, dark = False\<rparr>"
proof -
  have "traverse_ray_body (unit_tet_mesh False True) (make_float4 (1/10) (1/10) (1/10) 0)
          (make_float4 1 1 1 0) 0 0 ((fresh_rayhit p)\<lparr>depth := 0\<rparr>) =
        Inr (- 1, 0, True,
          \<lparr>pos = p, tet = 0, face = 0, depth = 0, wall = True, constrained = False, dark = False\<rparr>)"
    by (simp add: traverse_ray_body_eq [OF unit_tet_reads(1-3) unit_tet_exit_diagonal
          unit_tet_reads(4,5)] fresh_rayhit_def)
  from traverse_ray_first_hit [OF this] show ?thesis by simp
qed

text \<open>
  The scenario of C2 as stated asks for \<^verbatim>\<open>depth = 0\<close>; the code returns 80.
\<close>

theorem unit_tet_depth_counterexample:
  "traverse_ray (unit_tet_mesh False True) (make_float4 (1/10) (1/10) (1/10) 0)
     (make_float4 1 1 1 0) 0 (fresh_rayhit (make_float4 0 0 0 0)) =
   Inr \<lparr>pos = make_float4 0 0 0 0, tet = 0, face = 0, depth = 80, wall = True,
        constrained = False, dark = False\<rparr>"
  by (rule unit_tet_walls_diagonal)

text \<open>
  C2 (amended). On the unit tetrahedron with four wall faces and no neighbours, the ray
  from \<open>(0.1, 0.1, 0.1)\<close> in direction \<open>(1, 1, 1)\<close> started in tetrahedron 0 returns
  \<^verbatim>\<open>wall = true\<close>, \<^verbatim>\<open>tet = 0\<close> and \<^verbatim>\<open>depth = 80\<close>; the one sign pattern that
  matches is DCB, the face opposite vertex \<open>(0,0,0)\<close>, whose index is in slot 0.
\<close>

theorem unit_tet_scenario:
  "traverse_ray (unit_tet_mesh False True) (make_float4 (1/10) (1/10) (1/10) 0)
     (make_float4 1 1 1 0) 0 (fresh_rayhit p) =
   Inr \<lparr>pos = p, tet = 0, face = 0, depth = 80, wall = True, constrained = False, dark = False\<rparr> \<and>
   GetExitTet_signs (make_float4 (1/10) (1/10) (1/10) 0) (make_float4 1 1 1 0)
     (make_float4 0 0 0 0, make_float4 1 0 0 0, make_float4 0 1 0 0, make_float4 0 0 1 0) =
   (0, 1, 0, 0, - 1, 1) \<and>
   exit_DCB 1 (- 1) 1 \<and> exit_matches 0 1 0 0 (- 1) 1 = 1 \<and>
   t_findex1 (unit_tet_mesh False True) ! 0 = 0"
proof (intro conjI)
  show "traverse_ray (unit_tet_mesh False True) (make_float4 (1/10) (1/10) (1/10) 0)
     (make_float4 1 1 1 0) 0 (fresh_rayhit p) =
   Inr \<lparr>pos = p, tet = 0, face = 0, depth = 80, wall = True, constrained = False, dark = False\<rparr>"
    by (rule unit_tet_walls_diagonal)
  show "GetExitTet_signs (make_float4 (1/10) (1/10) (1/10) 0) (make_float4 1 1 1 0)
     (make_float4 0 0 0 0, make_float4 1 0 0 0, make_float4 0 1 0 0, make_float4 0 0 1 0) =
   (0, 1, 0, 0, - 1, 1)"
    by (rule unit_tet_signs_diagonal)
  show "exit_DCB 1 (- 1) 1" by (simp add: exit_DCB_def)
  show "exit_matches 0 1 0 0 (- 1) 1 = 1"
    by (simp add: exit_matches_def exit_ABC_def exit_BAD_def exit_CDA_def exit_DCB_def)
  show "t_findex1 (unit_tet_mesh False True) ! 0 = 0" by (simp add: unit_tet_mesh_def)
qed

text \<open>
  C5 as stated asks for exactly one flag. On the unit tetrahedron whose faces are
  constrained and have no neighbours, both \<^verbatim>\<open>constrained\<close> and \<^verbatim>\<open>wall\<close> are set.
\<close>

theorem both_flags_counterexample:
  "mesh_ok (unit_tet_mesh True False) \<and>
   traverse_ray (unit_tet_mesh True False) (make_float4 (1/10) (1/10) (1/10) 0)
     (make_float4 1 1 1 0) 0 (fresh_rayhit (make_float4 0 0 0 0)) =
   Inr \<lparr>pos = make_float4 0 0 0 0, tet = 0, face = 0, depth = 80, wall = True,
        constrained = True, dark = False\<rparr>"
proof -
  have "traverse_ray_body (unit_tet_mesh True False) (make_float4 (1/10) (1/10) (1/10) 0)
          (make_float4 1 1 1 0) 0 0 ((fresh_rayhit (make_float4 0 0 0 0))\<lparr>depth := 0\<rparr>) =
        Inr (- 1, 0, True,
          \<lparr>pos = make_float4 0 0 0 0, tet = 0, face = 0, depth = 0, wall = True,
           constrained = True, dark = False\<rparr>)"
    by (simp add: traverse_ray_body_eq [OF unit_tet_reads(1-3) unit_tet_exit_diagonal
          unit_tet_reads(4,5)] fresh_rayhit_def)
  from traverse_ray_first_hit [OF this] show ?thesis
    by (simp add: mesh_ok_def unit_tet_mesh_def)
qed

text \<open>
  C5 (amended). For every valid mesh, every ray, every valid start tetrahedron and a
  \<^verbatim>\<open>rayhit\<close> with no flag set, \<^verbatim>\<open>traverse_ray\<close> returns after the 80 iterations of
  its loop with at least one of the flags \<^verbatim>\<open>wall\<close>, \<^verbatim>\<open>constrained\<close>, \<^verbatim>\<open>dark\<close>
  set, and \<^verbatim>\<open>dark\<close> is set exactly when neither of the other two is.
\<close>

theorem traverse_ray_flags:
  assumes "mesh_ok mesh" "0 \<le> start" "start < int (tetnum mesh)"
    and "\<not> wall d" "\<not> constrained d" "\<not> dark d"
  shows "\<exists>h. traverse_ray mesh rayo rayd start d = Inr h \<and> depth h = 80 \<and>
           (wall h \<or> constrained h \<or> dark h) \<and> (dark h \<longleftrightarrow> \<not> wall h \<and> \<not> constrained h)"
proof -
  from traverse_ray_loop_ok [of mesh False start rayo rayd None 0 "d\<lparr>depth := 0\<rparr>"] assms(1-3)
  obtain ct nf hf d' where
    l: "traverse_ray_loop mesh rayo rayd start None 0 False (d\<lparr>depth := 0\<rparr>) = Inr (ct, nf, hf, d')"
    by (metis prod_cases4)
  from traverse_ray_loop_flags [OF l] assms(4-6)
  have f: "\<not> dark d'" "nf \<noteq> None" "depth d' = 80" "hf \<longrightarrow> wall d' \<or> constrained d'"
    "\<not> hf \<longrightarrow> \<not> wall d' \<and> \<not> constrained d'"
    by simp_all
  from f(2) obtain nf' where nf: "nf = Some nf'" by blast
  show ?thesis
  proof (cases hf)
    case True
    with l f show ?thesis by (simp add: traverse_ray_def)
  next
    case False
    with l f nf show ?thesis by (simp add: traverse_ray_def)
  qed
qed

theorem traverse_ray_flags_witness:
  "mesh_ok (unit_tet_mesh True False) \<and> (0::int) \<le> 0 \<and> 0 < int (tetnum (unit_tet_mesh True False)) \<and>
   \<not> wall (fresh_rayhit (make_float4 0 0 0 0)) \<and> \<not> constrained (fresh_rayhit (make_float4 0 0 0 0)) \<and>
   \<not> dark (fresh_rayhit (make_float4 0 0 0 0)) \<and>
   (\<exists>h. traverse_ray (unit_tet_mesh True False) (make_float4 (1/10) (1/10) (1/10) 0)
          (make_float4 1 1 1 0) 0 (fresh_rayhit (make_float4 0 0 0 0)) = Inr h \<and> depth h = 80 \<and>
        (wall h \<or> constrained h \<or> dark h) \<and> (dark h \<longleftrightarrow> \<not> wall h \<and> \<not> constrained h))"
proof -
  have ok: "mesh_ok (unit_tet_mesh True False)" by (simp add: mesh_ok_def unit_tet_mesh_def)
  have t: "(0::int) \<le> 0" "0 < int (tetnum (unit_tet_mesh True False))"
    by (simp_all add: unit_tet_mesh_def)
  have f: "\<not> wall (fresh_rayhit (make_float4 0 0 0 0))"
    "\<not> constrained (fresh_rayhit (make_float4 0 0 0 0))"
    "\<not> dark (fresh_rayhit (make_float4 0 0 0 0))"
    by (simp_all add: fresh_rayhit_def)
  from traverse_ray_flags [OF ok t f] ok t f show ?thesis by blast
qed

text \<open>A start index outside the array \<^verbatim>\<open>t_findex1\<close> is read out of range at once.\<close>

lemma traverse_ray_start_out_of_range:
  assumes "start < 0 \<or> int (length (t_findex1 mesh)) \<le> start"
  shows "traverse_ray mesh rayo rayd start d = Inl OutOfRange"
proof -
  from assms have "idx (t_findex1 mesh) start = Inl OutOfRange" by (rule idx_out_of_range)
  then have "traverse_ray_body mesh rayo rayd start 0 (d\<lparr>depth := 0\<rparr>) = Inl OutOfRange"
    by (simp add: traverse_ray_body_def tet_findex_def)
  then show ?thesis
    unfolding traverse_ray_def by (subst traverse_ray_loop.simps) simp
qed

text \<open>
  C6 as stated asks for \<^verbatim>\<open>dark = true\<close> and no read out of range at an invalid
  start index. Start index 1 on the mesh of one tetrahedron is read out of range.
\<close>

theorem invalid_start_counterexample:
  "traverse_ray (unit_tet_mesh False True) (make_float4 (1/10) (1/10) (1/10) 0)
     (make_float4 1 1 1 0) 1 (fresh_rayhit (make_float4 0 0 0 0)) = Inl OutOfRange"
  by (rule traverse_ray_start_out_of_range) (simp add: unit_tet_mesh_def)

text \<open>
  C6 (amended). On a valid mesh with a start index in \<open>[0, tetnum)\<close>,
  \<^verbatim>\<open>traverse_ray\<close> completes and returns a \<^verbatim>\<open>rayhit\<close>. The start index is not
  checked: with an index outside the array the first read of the walk is out of range,
  and no flag reports it.
\<close>

theorem traverse_ray_start_index:
  "(mesh_ok mesh \<and> 0 \<le> start \<and> start < int (tetnum mesh) \<longrightarrow>
      (\<exists>h. traverse_ray mesh rayo rayd start d = Inr h)) \<and>
   (start < 0 \<or> int (length (t_findex1 mesh)) \<le> start \<longrightarrow>
      traverse_ray mesh rayo rayd start d = Inl OutOfRange)"
  using traverse_ray_ok [of mesh start rayo rayd d]
    traverse_ray_start_out_of_range [of start mesh rayo rayd d]
  by blast

theorem traverse_ray_start_index_witness:
  "(mesh_ok (unit_tet_mesh False True) \<and> (0::int) \<le> 0 \<and>
    0 < int (tetnum (unit_tet_mesh False True)) \<and>
    (\<exists>h. traverse_ray (unit_tet_mesh False True) (make_float4 (1/10) (1/10) (1/10) 0)
          (make_float4 1 1 1 0) 0 (fresh_rayhit (make_float4 0 0 0 0)) = Inr h)) \<and>
   (int (length (t_findex1 (unit_tet_mesh False True))) \<le> 1 \<and>
    traverse_ray (unit_tet_mesh False True) (make_float4 (1/10) (1/10) (1/10) 0)
          (make_float4 1 1 1 0) 1 (fresh_rayhit (make_float4 0 0 0 0)) = Inl OutOfRange)"
  using traverse_ray_start_index [of "unit_tet_mesh False True" 0
          "make_float4 (1/10) (1/10) (1/10) 0" "make_float4 1 1 1 0"
          "fresh_rayhit (make_float4 0 0 0 0)"]
    traverse_ray_start_index [of "unit_tet_mesh False True" 1
          "make_float4 (1/10) (1/10) (1/10) 0" "make_float4 1 1 1 0"
          "fresh_rayhit (make_float4 0 0 0 0)"]
  by (simp add: mesh_ok_def unit_tet_mesh_def)

section \<open>No matching sign pattern\<close>

text \<open>
  The ray from \<open>(0.25, 0.25, 0.25)\<close> in direction \<open>(-1, -1, -1)\<close> leaves the unit
  tetrahedron through the vertex \<open>(0,0,0)\<close>: three of the six products are zero and no
  sign pattern matches.
\<close>

lemma unit_tet_signs_backwards:
  "GetExitTet_signs (make_float4 (1/4) (1/4) (1/4) 0) (make_float4 (- 1) (- 1) (- 1) 0)
     (make_float4 0 0 0 0, make_float4 1 0 0 0, make_float4 0 1 0 0, make_float4 0 0 1 0) =
   (0, - 1, 0, 0, 1, - 1)"
  by (simp add: GetExitTet_signs_def sub4_def ScTP_def Dot_def Cross_def signf_def Let_def)

lemma unit_tet_no_match_backwards:
  "no_exit_match (make_float4 (1/4) (1/4) (1/4) 0) (make_float4 (- 1) (- 1) (- 1) 0)
     (make_float4 0 0 0 0, make_float4 1 0 0 0, make_float4 0 1 0 0, make_float4 0 0 1 0)"
  by (simp add: no_exit_match_def unit_tet_signs_backwards exit_matches_def
      exit_ABC_def exit_BAD_def exit_CDA_def exit_DCB_def)

text \<open>The body of the loop when no sign pattern matches.\<close>

lemma traverse_ray_body_no_match:
  assumes "tet_findex mesh current_tet = Inr findex"
    and "tet_adjtets mesh current_tet = Inr adjtets"
    and "tet_nodes mesh current_tet = Inr nodes"
    and "no_exit_match rayo rayd nodes"
    and "idx (face_is_constrained mesh) 0 = Inr fc"
    and "idx (face_is_wall mesh) 0 = Inr fw"
  shows "traverse_ray_body mesh rayo rayd current_tet lastface d =
     Inr (0, 0, fc \<or> fw,
          if fc \<or> fw
          then d\<lparr>constrained := constrained d \<or> fc, wall := wall d \<or> fw,
                 face := 0, tet := current_tet\<rparr>
          else d)"
  using traverse_ray_body_eq [OF assms(1-3) GetExitTet_no_match [OF assms(4)] assms(5,6),
      of lastface d]
  by simp

text \<open>
  C1. When \<^verbatim>\<open>GetExitTet\<close> finds no matching sign pattern at the first step,
  \<^verbatim>\<open>traverse_ray\<close> has to report a dead end, \<^verbatim>\<open>dark = true\<close>. The source names
  \<^verbatim>\<open>face == 0 && tet == 0\<close> the state "No face hit" (lines 475 and 476), but
  \<^verbatim>\<open>traverse_ray\<close> never tests for it. On the unit tetrahedron with wall faces, the
  ray from \<open>(1/4, 1/4, 1/4)\<close> in direction \<open>(-1, -1, -1)\<close> leaves through the vertex
  \<open>(0,0,0)\<close> and matches no pattern; the code returns a hit of wall face 0, the face
  opposite that vertex, with \<^verbatim>\<open>wall = true\<close> and \<^verbatim>\<open>dark = false\<close>.
\<close>

theorem no_match_reported_as_wall:
  "no_exit_match (make_float4 (1/4) (1/4) (1/4) 0) (make_float4 (- 1) (- 1) (- 1) 0)
     (make_float4 0 0 0 0, make_float4 1 0 0 0, make_float4 0 1 0 0, make_float4 0 0 1 0) \<and>
   tet_nodes (unit_tet_mesh False True) 0 =
     Inr (make_float4 0 0 0 0, make_float4 1 0 0 0, make_float4 0 1 0 0, make_float4 0 0 1 0) \<and>
   traverse_ray (unit_tet_mesh False True) (make_float4 (1/4) (1/4) (1/4) 0)
     (make_float4 (- 1) (- 1) (- 1) 0) 0 (fresh_rayhit (make_float4 0 0 0 0)) =
   Inr \<lparr>pos = make_float4 0 0 0 0, tet = 0, face = 0, depth = 80, wall = True,
        constrained = False, dark = False\<rparr>"
proof -
  have "traverse_ray_body (unit_tet_mesh False True) (make_float4 (1/4) (1/4) (1/4) 0)
          (make_float4 (- 1) (- 1) (- 1) 0) 0 0 ((fresh_rayhit (make_float4 0 0 0 0))\<lparr>depth := 0\<rparr>) =
        Inr (0, 0, True,
          \<lparr>pos = make_float4 0 0 0 0, tet = 0, face = 0, depth = 0, wall = True,
           constrained = False, dark = False\<rparr>)"
    by (simp add: traverse_ray_body_no_match [OF unit_tet_reads(1-3) unit_tet_no_match_backwards
          unit_tet_reads(4,5)] fresh_rayhit_def)
  from traverse_ray_first_hit [OF this] unit_tet_no_match_backwards unit_tet_reads(3)
  show ?thesis by simp
qed

text \<open>
  C9. When none of the four sign patterns matches, \<^verbatim>\<open>GetExitTet\<close> returns its outputs
  at their initial values \<open>face = 0\<close> and \<open>tet = 0\<close>, the same outputs as a genuine exit
  (pattern DCB) through face 0 into tetrahedron 0. The out-of-mesh test of the traversal
  compares with \<open>-1\<close> only and does not fire: the body stops only if face 0 is flagged,
  and otherwise the walk goes on in tetrahedron 0 with the \<^verbatim>\<open>rayhit\<close> unchanged.
\<close>

theorem no_match_gives_face_0_tet_0:
  assumes "tet_findex mesh current_tet = Inr findex"
    and "tet_adjtets mesh current_tet = Inr adjtets"
    and "tet_nodes mesh current_tet = Inr nodes"
    and "no_exit_match rayo rayd nodes"
    and "idx (face_is_constrained mesh) 0 = Inr fc"
    and "idx (face_is_wall mesh) 0 = Inr fw"
  shows "GetExitTet rayo rayd nodes findex adjtets lastface = (0, 0) \<and>
         (exit_DCB sQBC sQBD sQCD \<longrightarrow>
            GetExitTet_select sQAB sQBC sQAC sQAD sQBD sQCD (0, f1, f2, f3) (0, a1, a2, a3) = (0, 0)) \<and>
         traverse_ray_body mesh rayo rayd current_tet lastface d =
           Inr (0, 0, fc \<or> fw,
                if fc \<or> fw
                then d\<lparr>constrained := constrained d \<or> fc, wall := wall d \<or> fw,
                       face := 0, tet := current_tet\<rparr>
                else d) \<and>
         (\<not> fc \<and> \<not> fw \<longrightarrow>
            traverse_ray_body mesh rayo rayd current_tet lastface d = Inr (0, 0, False, d))"
proof (intro conjI)
  show "GetExitTet rayo rayd nodes findex adjtets lastface = (0, 0)"
    using assms(4) by (rule GetExitTet_no_match)
  show "exit_DCB sQBC sQBD sQCD \<longrightarrow>
          GetExitTet_select sQAB sQBC sQAC sQAD sQBD sQCD (0, f1, f2, f3) (0, a1, a2, a3) = (0, 0)"
    by (simp add: GetExitTet_select_blocks)
  show b: "traverse_ray_body mesh rayo rayd current_tet lastface d =
           Inr (0, 0, fc \<or> fw,
                if fc \<or> fw
                then d\<lparr>constrained := constrained d \<or> fc, wall := wall d \<or> fw,
                       face := 0, tet := current_tet\<rparr>
                else d)"
    using assms by (rule traverse_ray_body_no_match)
  show "\<not> fc \<and> \<not> fw \<longrightarrow>
          traverse_ray_body mesh rayo rayd current_tet lastface d = Inr (0, 0, False, d)"
    using b by simp
qed

theorem no_match_gives_face_0_tet_0_witness:
  "tet_findex (unit_tet_mesh False False) 0 = Inr (0, 1, 2, 3) \<and>
   tet_adjtets (unit_tet_mesh False False) 0 = Inr (- 1, - 1, - 1, - 1) \<and>
   tet_nodes (unit_tet_mesh False False) 0 =
     Inr (make_float4 0 0 0 0, make_float4 1 0 0 0, make_float4 0 1 0 0, make_float4 0 0 1 0) \<and>
   no_exit_match (make_float4 (1/4) (1/4) (1/4) 0) (make_float4 (- 1) (- 1) (- 1) 0)
     (make_float4 0 0 0 0, make_float4 1 0 0 0, make_float4 0 1 0 0, make_float4 0 0 1 0) \<and>
   idx (face_is_constrained (unit_tet_mesh False False)) 0 = Inr False \<and>
   idx (face_is_wall (unit_tet_mesh False False)) 0 = Inr False \<and>
   exit_DCB 1 (- 1) 1 \<and>
   GetExitTet (make_float4 (1/4) (1/4) (1/4) 0) (make_float4 (- 1) (- 1) (- 1) 0)
     (make_float4 0 0 0 0, make_float4 1 0 0 0, make_float4 0 1 0 0, make_float4 0 0 1 0)
     (0, 1, 2, 3) (- 1, - 1, - 1, - 1) 0 = (0, 0) \<and>
   GetExitTet_select 0 1 0 0 (- 1) 1 (0, 1, 2, 3) (0, - 1, - 1, - 1) = (0, 0) \<and>
   traverse_ray_body (unit_tet_mesh False False) (make_float4 (1/4) (1/4) (1/4) 0)
     (make_float4 (- 1) (- 1) (- 1) 0) 0 0 (fresh_rayhit (make_float4 0 0 0 0)) =
   Inr (0, 0, False, fresh_rayhit (make_float4 0 0 0 0))"
proof -
  have dcb: "exit_DCB 1 (- 1) 1" by (simp add: exit_DCB_def)
  note r = unit_tet_reads [of False False]
  from no_match_gives_face_0_tet_0 [OF r(1-3) unit_tet_no_match_backwards
      r(4,5), where sQBC = 1 and sQBD = "- 1"
      and sQCD = 1 and sQAB = 0 and sQAC = 0 and sQAD = 0 and ?f1.0 = 1 and ?f2.0 = 2 and ?f3.0 = 3
      and ?a1.0 = "- 1" and ?a2.0 = "- 1" and ?a3.0 = "- 1" and lastface = 0
      and d = "fresh_rayhit (make_float4 0 0 0 0)"] dcb r unit_tet_no_match_backwards
  show ?thesis by simp
qed

section \<open>Results of \<^verbatim>\<open>traverse_until_point\<close>\<close>

lemma traverse_until_point_body_depth:
  "traverse_until_point_body mesh rayo rayd current_tet lastface endp d =
     Inr (nexttet, nextface, h, d') \<Longrightarrow> depth d' = depth d"
  by (auto simp: traverse_until_point_body_def bnd_def split: sum.splits prod.splits if_splits)

lemma traverse_until_point_loop_hit:
  "depth d \<le> 80 \<Longrightarrow>
   traverse_until_point_loop mesh rayo rayd endp current_tet nextface lastface True d =
     Inr (current_tet, nextface, True, d\<lparr>depth := 80\<rparr>)"
proof (induction "nat (80 - depth d)" arbitrary: d)
  case 0
  then have "depth d = 80" by simp
  then have "d\<lparr>depth := 80\<rparr> = d" by simp
  with \<open>depth d = 80\<close> show ?case by (subst traverse_until_point_loop.simps) simp
next
  case (Suc n)
  then have lt: "depth d < 80" by simp
  have "traverse_until_point_loop mesh rayo rayd endp current_tet nextface lastface True
          (d\<lparr>depth := depth d + 1\<rparr>)
      = Inr (current_tet, nextface, True, d\<lparr>depth := depth d + 1\<rparr>\<lparr>depth := 80\<rparr>)"
    using Suc by (intro Suc.hyps(1)) auto
  with lt show ?case by (subst traverse_until_point_loop.simps) simp
qed

lemma traverse_until_point_body_inside:
  assumes "tet_findex mesh current_tet = Inr findex"
    and "tet_adjtets mesh current_tet = Inr adjtets"
    and "tet_nodes mesh current_tet = Inr (v1, v2, v3, v4)"
    and "IsPointInTetrahedron v1 v2 v3 v4 endp"
    and "GetExitTet rayo rayd (v1, v2, v3, v4) findex adjtets lastface = (nextface, nexttet)"
    and "idx (face_is_constrained mesh) nextface = Inr fc"
    and "idx (face_is_wall mesh) nextface = Inr fw"
  shows "traverse_until_point_body mesh rayo rayd current_tet lastface endp d =
     Inr (nexttet, nextface, True,
          d\<lparr>constrained := constrained d \<or> fc,
            wall := wall d \<or> fw \<or> nexttet = - 1 \<or> nextface = - 1,
            face := nextface, tet := current_tet\<rparr>)"
  using assms by (cases fc; cases fw; cases "nexttet = - 1 \<or> nextface = - 1")
    (simp_all add: traverse_until_point_body_def)

lemma traverse_until_point_first_hit:
  assumes "traverse_until_point_body mesh rayo rayd start 0 endp (d\<lparr>depth := 0\<rparr>) =
             Inr (nexttet, nextface, True, d')"
  shows "traverse_until_point mesh rayo rayd start endp d = Inr (d'\<lparr>depth := 80\<rparr>)"
proof -
  from assms have "depth d' = 0" by (auto dest: traverse_until_point_body_depth)
  then show ?thesis
    unfolding traverse_until_point_def
    by (subst traverse_until_point_loop.simps) (simp add: assms traverse_until_point_loop_hit)
qed

lemma unit_tet_exit_quarter:
  "GetExitTet (make_float4 (1/4) (1/4) (1/4) 0) (make_float4 1 1 1 0)
     (make_float4 0 0 0 0, make_float4 1 0 0 0, make_float4 0 1 0 0, make_float4 0 0 1 0)
     (0, 1, 2, 3) (- 1, - 1, - 1, - 1) lface = (0, - 1)"
  by (simp add: GetExitTet_def GetExitTet_signs_def sub4_def ScTP_def Dot_def Cross_def signf_def
      Let_def GetExitTet_select_def)

lemma unit_tet_inside:
  "IsPointInTetrahedron (make_float4 0 0 0 0) (make_float4 1 0 0 0) (make_float4 0 1 0 0)
     (make_float4 0 0 1 0) (make_float4 (1/4) (1/4) (1/4) 0)"
  by (simp add: IsPointInTetrahedron_def SameSide_def Cross_def Dot_def sub4_def signf_def Let_def)

text \<open>
  C4 as stated asks for \<^verbatim>\<open>depth = 0\<close> and no \<^verbatim>\<open>wall\<close> flag. On the unit tetrahedron
  with wall faces and the target point \<open>(0.25, 0.25, 0.25)\<close> inside it, \<^verbatim>\<open>wall\<close> is set
  and \<^verbatim>\<open>depth\<close> is 80.
\<close>

theorem target_in_start_tet_counterexample:
  "IsPointInTetrahedron (make_float4 0 0 0 0) (make_float4 1 0 0 0) (make_float4 0 1 0 0)
     (make_float4 0 0 1 0) (make_float4 (1/4) (1/4) (1/4) 0) \<and>
   tet_nodes (unit_tet_mesh False True) 0 =
     Inr (make_float4 0 0 0 0, make_float4 1 0 0 0, make_float4 0 1 0 0, make_float4 0 0 1 0) \<and>
   traverse_until_point (unit_tet_mesh False True) (make_float4 (1/4) (1/4) (1/4) 0)
     (make_float4 1 1 1 0) 0 (make_float4 (1/4) (1/4) (1/4) 0)
     (fresh_rayhit (make_float4 0 0 0 0)) =
   Inr \<lparr>pos = make_float4 0 0 0 0, tet = 0, face = 0, depth = 80, wall = True,
        constrained = False, dark = False\<rparr>"
proof -
  note r = unit_tet_reads [of False True]
  have "traverse_until_point_body (unit_tet_mesh False True) (make_float4 (1/4) (1/4) (1/4) 0)
          (make_float4 1 1 1 0) 0 0 (make_float4 (1/4) (1/4) (1/4) 0)
          ((fresh_rayhit (make_float4 0 0 0 0))\<lparr>depth := 0\<rparr>) =
        Inr (- 1, 0, True,
          \<lparr>pos = make_float4 0 0 0 0, tet = 0, face = 0, depth = 0, wall = True,
           constrained = False, dark = False\<rparr>)"
    by (simp add: traverse_until_point_body_inside [OF r(1-3) unit_tet_inside
          unit_tet_exit_quarter r(4,5)] fresh_rayhit_def)
  from traverse_until_point_first_hit [OF this] unit_tet_inside r(3)
  show ?thesis by simp
qed

text \<open>
  C4 (amended). If the target point lies inside the start tetrahedron (and the reads of
  the first iteration are in range), \<^verbatim>\<open>traverse_until_point\<close> stops walking in the
  first iteration and returns with \<^verbatim>\<open>tet\<close> the start tetrahedron, \<^verbatim>\<open>face\<close> the exit
  face resolved there, \<^verbatim>\<open>depth = 80\<close> and \<^verbatim>\<open>dark\<close> untouched. The stop tests still
  run: \<^verbatim>\<open>constrained\<close> is set if that face is flagged constrained, \<^verbatim>\<open>wall\<close> if it
  is flagged wall or the resolved neighbour or face is \<open>-1\<close>.
\<close>

theorem target_in_start_tet:
  assumes "tet_findex mesh start = Inr findex"
    and "tet_adjtets mesh start = Inr adjtets"
    and "tet_nodes mesh start = Inr (v1, v2, v3, v4)"
    and "IsPointInTetrahedron v1 v2 v3 v4 endp"
    and "GetExitTet rayo rayd (v1, v2, v3, v4) findex adjtets 0 = (nextface, nexttet)"
    and "idx (face_is_constrained mesh) nextface = Inr fc"
    and "idx (face_is_wall mesh) nextface = Inr fw"
  shows "traverse_until_point mesh rayo rayd start endp d =
     Inr (d\<lparr>depth := 80, tet := start, face := nextface,
            constrained := constrained d \<or> fc,
            wall := wall d \<or> fw \<or> nexttet = - 1 \<or> nextface = - 1\<rparr>)"
proof -
  from traverse_until_point_first_hit
    [OF traverse_until_point_body_inside [OF assms, of "d\<lparr>depth := 0\<rparr>"]]
  show ?thesis by simp
qed

theorem target_in_start_tet_witness:
  "tet_findex (unit_tet_mesh False True) 0 = Inr (0, 1, 2, 3) \<and>
   tet_adjtets (unit_tet_mesh False True) 0 = Inr (- 1, - 1, - 1, - 1) \<and>
   tet_nodes (unit_tet_mesh False True) 0 =
     Inr (make_float4 0 0 0 0, make_float4 1 0 0 0, make_float4 0 1 0 0, make_float4 0 0 1 0) \<and>
   IsPointInTetrahedron (make_float4 0 0 0 0) (make_float4 1 0 0 0) (make_float4 0 1 0 0)
     (make_float4 0 0 1 0) (make_float4 (1/4) (1/4) (1/4) 0) \<and>
   GetExitTet (make_float4 (1/4) (1/4) (1/4) 0) (make_float4 1 1 1 0)
     (make_float4 0 0 0 0, make_float4 1 0 0 0, make_float4 0 1 0 0, make_float4 0 0 1 0)
     (0, 1, 2, 3) (- 1, - 1, - 1, - 1) 0 = (0, - 1) \<and>
   idx (face_is_constrained (unit_tet_mesh False True)) 0 = Inr False \<and>
   idx (face_is_wall (unit_tet_mesh False True)) 0 = Inr True \<and>
   traverse_until_point (unit_tet_mesh False True) (make_float4 (1/4) (1/4) (1/4) 0)
     (make_float4 1 1 1 0) 0 (make_float4 (1/4) (1/4) (1/4) 0)
     (fresh_rayhit (make_float4 0 0 0 0)) =
   Inr \<lparr>pos = make_float4 0 0 0 0, tet = 0, face = 0, depth = 80, wall = True,
        constrained = False, dark = False\<rparr>"
proof -
  note r = unit_tet_reads [of False True]
  note e = unit_tet_exit_quarter [of 0]
  from target_in_start_tet [OF r(1-3) unit_tet_inside e r(4,5),
      where d = "fresh_rayhit (make_float4 0 0 0 0)"] r e unit_tet_inside
  show ?thesis by (simp add: fresh_rayhit_def)
qed

section \<open>Results of the point locator\<close>

text \<open>
  A returned index is the smallest index whose tetrahedron contains the point; when no
  tetrahedron contains it, control reaches the end of the function.
\<close>

lemma GetTetrahedraFromPoint_loop_found:
  "GetTetrahedraFromPoint_loop mesh p i = Inr k \<Longrightarrow>
     int i \<le> k \<and> k < int (tetnum mesh) \<and>
     (\<exists>v1 v2 v3 v4. tet_nodes mesh k = Inr (v1, v2, v3, v4) \<and>
        IsPointInTetrahedron v1 v2 v3 v4 p) \<and>
     (\<forall>j. i \<le> j \<and> int j < k \<longrightarrow>
        (\<exists>v1 v2 v3 v4. tet_nodes mesh (int j) = Inr (v1, v2, v3, v4) \<and>
           \<not> IsPointInTetrahedron v1 v2 v3 v4 p))"
proof (induction mesh p i rule: GetTetrahedraFromPoint_loop.induct)
  case (1 mesh p i)
  from "1.prems" have lt: "i < tetnum mesh"
    by (subst (asm) GetTetrahedraFromPoint_loop.simps) (simp split: if_splits)
  from "1.prems" lt obtain v1 v2 v3 v4 where
    n: "tet_nodes mesh (int i) = Inr (v1, v2, v3, v4)"
    by (subst (asm) GetTetrahedraFromPoint_loop.simps) (auto split: sum.splits)
  show ?case
  proof (cases "IsPointInTetrahedron v1 v2 v3 v4 p")
    case True
    with "1.prems" lt n have "k = int i"
      by (subst (asm) GetTetrahedraFromPoint_loop.simps) simp
    with lt n True show ?thesis by auto
  next
    case False
    with "1.prems" lt n have r: "GetTetrahedraFromPoint_loop mesh p (Suc i) = Inr k"
      by (subst (asm) GetTetrahedraFromPoint_loop.simps) simp
    from False have "IsPointInTetrahedron v1 v2 v3 v4 p \<noteq> True" by simp
    from "1.IH" [OF lt n refl refl refl this r]
    have ih: "int (Suc i) \<le> k" "k < int (tetnum mesh)"
      "\<exists>v1 v2 v3 v4. tet_nodes mesh k = Inr (v1, v2, v3, v4) \<and> IsPointInTetrahedron v1 v2 v3 v4 p"
      "\<forall>j. Suc i \<le> j \<and> int j < k \<longrightarrow>
        (\<exists>v1 v2 v3 v4. tet_nodes mesh (int j) = Inr (v1, v2, v3, v4) \<and>
           \<not> IsPointInTetrahedron v1 v2 v3 v4 p)"
      by blast+
    have "\<forall>j. i \<le> j \<and> int j < k \<longrightarrow>
        (\<exists>v1 v2 v3 v4. tet_nodes mesh (int j) = Inr (v1, v2, v3, v4) \<and>
           \<not> IsPointInTetrahedron v1 v2 v3 v4 p)"
    proof (intro allI impI)
      fix j assume j: "i \<le> j \<and> int j < k"
      show "\<exists>v1 v2 v3 v4. tet_nodes mesh (int j) = Inr (v1, v2, v3, v4) \<and>
           \<not> IsPointInTetrahedron v1 v2 v3 v4 p"
      proof (cases "j = i")
        case True
        with n False show ?thesis by blast
      next
        case False
        with j have "Suc i \<le> j \<and> int j < k" by simp
        with ih(4) show ?thesis by blast
      qed
    qed
    with ih show ?thesis by simp
  qed
qed

lemma GetTetrahedraFromPoint_loop_not_found:
  "(\<forall>j. i \<le> j \<and> j < tetnum mesh \<longrightarrow>
      (\<exists>v1 v2 v3 v4. tet_nodes mesh (int j) = Inr (v1, v2, v3, v4) \<and>
         \<not> IsPointInTetrahedron v1 v2 v3 v4 p)) \<Longrightarrow>
   GetTetrahedraFromPoint_loop mesh p i = Inl NoReturnValue"
proof (induction mesh p i rule: GetTetrahedraFromPoint_loop.induct)
  case (1 mesh p i)
  show ?case
  proof (cases "i < tetnum mesh")
    case False
    then show ?thesis by (subst GetTetrahedraFromPoint_loop.simps) simp
  next
    case True
    with "1.prems" obtain v1 v2 v3 v4 where
      n: "tet_nodes mesh (int i) = Inr (v1, v2, v3, v4)"
      and out: "\<not> IsPointInTetrahedron v1 v2 v3 v4 p"
      by (meson le_refl)
    from out have "IsPointInTetrahedron v1 v2 v3 v4 p \<noteq> True" by simp
    from "1.IH" [OF True n refl refl refl this] "1.prems"
    have "GetTetrahedraFromPoint_loop mesh p (Suc i) = Inl NoReturnValue" by simp
    with True n out show ?thesis by (subst GetTetrahedraFromPoint_loop.simps) simp
  qed
qed

text \<open>
  C3. \<^verbatim>\<open>GetTetrahedraFromPoint\<close> has to return an explicit "not found" when the scan
  completes without a match. The source has no \<^verbatim>\<open>return\<close> after the loop: for the point
  \<open>(2, 2, 2)\<close> outside the unit tetrahedron no value is returned.
\<close>

theorem locator_no_match_no_return:
  "GetTetrahedraFromPoint (unit_tet_mesh False True) (make_float4 2 2 2 0) = Inl NoReturnValue"
proof -
  have "\<not> IsPointInTetrahedron (make_float4 0 0 0 0) (make_float4 1 0 0 0) (make_float4 0 1 0 0)
     (make_float4 0 0 1 0) (make_float4 2 2 2 0)"
    by (simp add: IsPointInTetrahedron_def SameSide_def Cross_def Dot_def sub4_def signf_def Let_def)
  moreover have "tetnum (unit_tet_mesh False True) = 1" by (simp add: unit_tet_mesh_def)
  ultimately show ?thesis
    unfolding GetTetrahedraFromPoint_def
    by (subst GetTetrahedraFromPoint_loop.simps, subst GetTetrahedraFromPoint_loop.simps)
       (simp add: unit_tet_reads [simplified])
qed

section \<open>Results of \<^verbatim>\<open>init_BBox\<close>\<close>

text \<open>
  The comparisons of \<^verbatim>\<open>init_BBox\<close> move \<^verbatim>\<open>min\<close> up and \<^verbatim>\<open>max\<close> down: the corner
  \<^verbatim>\<open>min\<close> ends above every node and \<^verbatim>\<open>max\<close> below every node.
\<close>

lemma init_BBox_body_bounds:
  "f_x (min_c (init_BBox_body px py pz bb)) = max (f_x (min_c bb)) px \<and>
   f_y (min_c (init_BBox_body px py pz bb)) = max (f_y (min_c bb)) py \<and>
   f_z (min_c (init_BBox_body px py pz bb)) = max (f_z (min_c bb)) pz \<and>
   f_x (max_c (init_BBox_body px py pz bb)) = min (f_x (max_c bb)) px \<and>
   f_y (max_c (init_BBox_body px py pz bb)) = min (f_y (max_c bb)) py \<and>
   f_z (max_c (init_BBox_body px py pz bb)) = min (f_z (max_c bb)) pz"
  by (simp add: init_BBox_body_def Let_def set_x_def set_y_def set_z_def)

lemma node_pos_Inr:
  "node_pos mesh k = Inr n \<Longrightarrow>
   f_x n = n_x mesh ! nat k \<and> f_y n = n_y mesh ! nat k \<and> f_z n = n_z mesh ! nat k"
  by (auto simp: node_pos_def idx_def bnd_def split: if_splits sum.splits)

lemma init_BBox_loop_inverted:
  "init_BBox_loop mesh i bb = Inr bb' \<Longrightarrow>
   (f_x (min_c bb) \<le> f_x (min_c bb') \<and> f_x (max_c bb') \<le> f_x (max_c bb) \<and>
    f_y (min_c bb) \<le> f_y (min_c bb') \<and> f_y (max_c bb') \<le> f_y (max_c bb) \<and>
    f_z (min_c bb) \<le> f_z (min_c bb') \<and> f_z (max_c bb') \<le> f_z (max_c bb)) \<and>
   (\<forall>j. i \<le> j \<and> j < nodenum mesh \<longrightarrow>
      n_x mesh ! j \<le> f_x (min_c bb') \<and> f_x (max_c bb') \<le> n_x mesh ! j \<and>
      n_y mesh ! j \<le> f_y (min_c bb') \<and> f_y (max_c bb') \<le> n_y mesh ! j \<and>
      n_z mesh ! j \<le> f_z (min_c bb') \<and> f_z (max_c bb') \<le> n_z mesh ! j)"
proof (induction mesh i bb rule: init_BBox_loop.induct)
  case (1 mesh i bb)
  show ?case
  proof (cases "i < nodenum mesh")
    case False
    with "1.prems" have "bb' = bb" by (subst (asm) init_BBox_loop.simps) simp
    with False show ?thesis by simp
  next
    case True
    with "1.prems" obtain n where n: "node_pos mesh (int i) = Inr n"
      and l: "init_BBox_loop mesh (Suc i) (init_BBox_body (f_x n) (f_y n) (f_z n) bb) = Inr bb'"
      by (subst (asm) init_BBox_loop.simps) (auto split: sum.splits)
    note ih = "1.IH" [OF True n l]
    note b = init_BBox_body_bounds [of "f_x n" "f_y n" "f_z n" bb]
    from node_pos_Inr [OF n] have c: "f_x n = n_x mesh ! i" "f_y n = n_y mesh ! i"
      "f_z n = n_z mesh ! i" by simp_all
    have mono: "f_x (min_c bb) \<le> f_x (min_c bb') \<and> f_x (max_c bb') \<le> f_x (max_c bb) \<and>
      f_y (min_c bb) \<le> f_y (min_c bb') \<and> f_y (max_c bb') \<le> f_y (max_c bb) \<and>
      f_z (min_c bb) \<le> f_z (min_c bb') \<and> f_z (max_c bb') \<le> f_z (max_c bb)"
      using ih b by linarith
    have here: "n_x mesh ! i \<le> f_x (min_c bb') \<and> f_x (max_c bb') \<le> n_x mesh ! i \<and>
      n_y mesh ! i \<le> f_y (min_c bb') \<and> f_y (max_c bb') \<le> n_y mesh ! i \<and>
      n_z mesh ! i \<le> f_z (min_c bb') \<and> f_z (max_c bb') \<le> n_z mesh ! i"
      using ih b c by linarith
    have "\<forall>j. i \<le> j \<and> j < nodenum mesh \<longrightarrow>
      n_x mesh ! j \<le> f_x (min_c bb') \<and> f_x (max_c bb') \<le> n_x mesh ! j \<and>
      n_y mesh ! j \<le> f_y (min_c bb') \<and> f_y (max_c bb') \<le> n_y mesh ! j \<and>
      n_z mesh ! j \<le> f_z (min_c bb') \<and> f_z (max_c bb') \<le> n_z mesh ! j"
    proof (intro allI impI)
      fix j assume j: "i \<le> j \<and> j < nodenum mesh"
      show "n_x mesh ! j \<le> f_x (min_c bb') \<and> f_x (max_c bb') \<le> n_x mesh ! j \<and>
        n_y mesh ! j \<le> f_y (min_c bb') \<and> f_y (max_c bb') \<le> n_y mesh ! j \<and>
        n_z mesh ! j \<le> f_z (min_c bb') \<and> f_z (max_c bb') \<le> n_z mesh ! j"
      proof (cases "j = i")
        case True
        with here show ?thesis by simp
      next
        case False
        with j have "Suc i \<le> j \<and> j < nodenum mesh" by simp
        with ih show ?thesis by blast
      qed
    qed
    with mono show ?thesis by blast
  qed
qed

lemma init_BBox_inverted:
  assumes "init_BBox mesh = Inr bb" "j < nodenum mesh"
  shows "n_x mesh ! j \<le> f_x (min_c bb) \<and> f_x (max_c bb) \<le> n_x mesh ! j \<and>
         n_y mesh ! j \<le> f_y (min_c bb) \<and> f_y (max_c bb) \<le> n_y mesh ! j \<and>
         n_z mesh ! j \<le> f_z (min_c bb) \<and> f_z (max_c bb) \<le> n_z mesh ! j"
  using init_BBox_loop_inverted [OF assms(1) [unfolded init_BBox_def]] assms(2) by simp

text \<open>
  C8. \<^verbatim>\<open>init_BBox\<close> has to return the componentwise minimum and maximum of the node
  positions. For the two nodes \<open>(0,0,0)\<close> and \<open>(1,1,1)\<close> the code returns
  \<^verbatim>\<open>min = (1,1,1)\<close> and \<^verbatim>\<open>max = (0,0,0)\<close>.
\<close>

theorem init_BBox_two_nodes:
  "init_BBox two_node_mesh =
     Inr \<lparr>min_c = make_float4 1 1 1 0, max_c = make_float4 0 0 0 0\<rparr>"
  unfolding init_BBox_def
  by (simp add: init_BBox_loop.simps two_node_mesh_def node_pos_def idx_def init_BBox_body_def
      inf_f_def set_x_def set_y_def set_z_def Let_def)

end
